theory Spec2Isabelle
  imports Complex_Main
begin

section \<open>JavaScript strings\<close>

text \<open>
  A JavaScript string is a sequence of UTF-16 code units. The development covers the
  strings whose code units are below 256 (Basic Latin and Latin-1 Supplement), one
  \<open>char\<close> per code unit, so that \<open>length\<close> is the \<open>.length\<close> of the source.
\<close>

definition code :: "char \<Rightarrow> nat" where
  "code c = of_char c"

text \<open>
  The white space and line terminator code units below 256: TAB, LF, VT, FF, CR, SP and
  NBSP. This is the class \<^verbatim>\<open>\s\<close> of a regular expression and also what
  \<^verbatim>\<open>String.prototype.trim\<close> strips.
\<close>

definition isWhiteSpace :: "char \<Rightarrow> bool" where
  "isWhiteSpace c = (code c \<in> {9, 10, 11, 12, 13, 32, 160})"

definition trim :: "string \<Rightarrow> string" where
  "trim s = rev (dropWhile isWhiteSpace (rev (dropWhile isWhiteSpace s)))"

text \<open>
  \<^verbatim>\<open>String.prototype.toLowerCase\<close> on code units below 256: the letters A to Z and the
  Latin-1 capitals U+00C0 to U+00DE (without the multiplication sign U+00D7) move up by 32;
  every other code unit stays.
\<close>

definition toLowerChar :: "char \<Rightarrow> char" where
  "toLowerChar c =
     (if (65 \<le> code c \<and> code c \<le> 90) \<or> (192 \<le> code c \<and> code c \<le> 222 \<and> code c \<noteq> 215)
      then char_of (code c + 32) else c)"

definition toLowerCase :: "string \<Rightarrow> string" where
  "toLowerCase s = map toLowerChar s"

section \<open>Regular expressions of the validators\<close>

text \<open>
  The three patterns of the source are anchored at both ends (\<^verbatim>\<open>^...$\<close>, no flags) and
  are sequences of single characters and character classes, a class possibly repeated
  (\<^verbatim>\<open>+\<close> is \<^verbatim>\<open>{1,}\<close>). A class lists characters, ranges and \<^verbatim>\<open>\s\<close>, and may be
  negated.
\<close>

datatype cls_item = Ch char | Range char char | Space

datatype atom = Lit char | Cls "cls_item list" | NegCls "cls_item list"

datatype item = One atom | Many nat atom

fun in_item :: "char \<Rightarrow> cls_item \<Rightarrow> bool" where
  "in_item c (Ch d) = (c = d)"
| "in_item c (Range lo hi) = (code lo \<le> code c \<and> code c \<le> code hi)"
| "in_item c Space = isWhiteSpace c"

fun atom_ok :: "atom \<Rightarrow> char \<Rightarrow> bool" where
  "atom_ok (Lit d) c = (c = d)"
| "atom_ok (Cls is) c = list_ex (in_item c) is"
| "atom_ok (NegCls is) c = (\<not> list_ex (in_item c) is)"

text \<open>
  \<open>matches p s\<close>: the anchored pattern \<open>p\<close> matches the whole of \<open>s\<close>. A repeated
  class may stop after any number of characters that is at least its minimum, which is
  what backtracking explores.
\<close>

fun matches :: "item list \<Rightarrow> string \<Rightarrow> bool" where
  "matches [] s = (s = [])"
| "matches (One a # p) [] = False"
| "matches (One a # p) (c # cs) = (atom_ok a c \<and> matches p cs)"
| "matches (Many 0 a # p) [] = matches p []"
| "matches (Many 0 a # p) (c # cs) =
     (matches p (c # cs) \<or> (atom_ok a c \<and> matches (Many 0 a # p) cs))"
| "matches (Many (Suc n) a # p) [] = False"
| "matches (Many (Suc n) a # p) (c # cs) = (atom_ok a c \<and> matches (Many n a # p) cs)"

section \<open>Form validation functions\<close>

text \<open>\<^verbatim>\<open>/^[^\s@]+@[^\s@]+\.[^\s@]+$/\<close>\<close>

definition emailRegex :: "item list" where
  "emailRegex =
     [Many 1 (NegCls [Space, Ch CHR ''@'']), One (Lit CHR ''@''),
      Many 1 (NegCls [Space, Ch CHR ''@'']), One (Lit CHR ''.''),
      Many 1 (NegCls [Space, Ch CHR ''@''])]"

definition isValidEmail :: "string \<Rightarrow> bool" where
  "isValidEmail email = matches emailRegex email"

text \<open>\<^verbatim>\<open>/^[0-9\-\(\)\s+]{10,}$/\<close>\<close>

definition phoneRegex :: "item list" where
  "phoneRegex =
     [Many 10 (Cls [Range CHR ''0'' CHR ''9'', Ch CHR ''-'', Ch CHR ''('', Ch CHR '')'',
                    Space, Ch CHR ''+''])]"

definition isValidPhone :: "string \<Rightarrow> bool" where
  "isValidPhone phone = matches phoneRegex phone"

text \<open>\<^verbatim>\<open>/^[a-zA-Z\s'-]+$/\<close>\<close>

definition nameRegex :: "item list" where
  "nameRegex =
     [Many 1 (Cls [Range CHR ''a'' CHR ''z'', Range CHR ''A'' CHR ''Z'', Space,
                   Ch (CHR 0x27), Ch CHR ''-''])]"

definition isValidName :: "string \<Rightarrow> bool" where
  "isValidName name = (length (trim name) \<ge> 3 \<and> matches nameRegex name)"

section \<open>Numbers and their conversions\<close>

text \<open>
  The values a comparison of the source can meet: NaN, the two infinities and the finite
  numbers. A finite number is a binary64 value, held as the rational it denotes.
\<close>

datatype number = NaN | NegInf | Finite rat | PosInf

fun less_number :: "number \<Rightarrow> number \<Rightarrow> bool" where
  "less_number NaN y = False"
| "less_number x NaN = False"
| "less_number PosInf y = False"
| "less_number x NegInf = False"
| "less_number NegInf y = True"
| "less_number x PosInf = True"
| "less_number (Finite a) (Finite b) = (a < b)"

fun negate :: "number \<Rightarrow> number" where
  "negate NaN = NaN"
| "negate NegInf = PosInf"
| "negate (Finite a) = Finite (- a)"
| "negate PosInf = NegInf"

subsection \<open>Rounding to binary64\<close>

text \<open>
  The number value for a rational: the nearest binary64 value, a tie going to the one with
  the even significand. \<open>floorLog2 a\<close> is the exponent of a positive \<open>a\<close>, the \<open>e\<close>
  with \<open>2 powi e \<le> a < 2 powi (e + 1)\<close>, found by halving or doubling. The values at
  that exponent are the multiples of \<open>2 powi (e - 52)\<close>; below the exponent -1022 the
  spacing stays that of the subnormal numbers, and a result of magnitude \<open>2 powi 1024\<close> or
  more is an infinity.
\<close>

function floorLog2_up :: "rat \<Rightarrow> nat" where
  "floorLog2_up a = (if a < 2 then 0 else Suc (floorLog2_up (a / 2)))"
  by pat_completeness auto
termination
proof (relation "measure (\<lambda>a. nat \<lfloor>a\<rfloor>)")
  show "wf (measure (\<lambda>a::rat. nat \<lfloor>a\<rfloor>))" by simp
next
  fix a :: rat
  assume "\<not> a < 2"
  then have "a / 2 \<le> a - 1" by simp
  then have "\<lfloor>a / 2\<rfloor> \<le> \<lfloor>a - 1\<rfloor>" by (rule floor_mono)
  moreover have "1 \<le> \<lfloor>a\<rfloor>" using \<open>\<not> a < 2\<close> by (simp add: le_floor_iff)
  ultimately show "(a / 2, a) \<in> measure (\<lambda>a. nat \<lfloor>a\<rfloor>)" by simp
qed

declare floorLog2_up.simps [simp del]

function floorLog2_down :: "rat \<Rightarrow> nat" where
  "floorLog2_down a = (if a \<le> 0 \<or> 1 \<le> a then 0 else Suc (floorLog2_down (a * 2)))"
  by pat_completeness auto
termination
proof (relation "measure (\<lambda>a. nat \<lceil>1 / a\<rceil>)")
  show "wf (measure (\<lambda>a::rat. nat \<lceil>1 / a\<rceil>))" by simp
next
  fix a :: rat
  assume "\<not> (a \<le> 0 \<or> 1 \<le> a)"
  then have a: "0 < a" "a < 1" by simp_all
  then have x: "1 < 1 / a" by simp
  then have c: "2 \<le> \<lceil>1 / a\<rceil>" by (simp add: le_ceiling_iff)
  have "1 / (a * 2) = (1 / a) / 2" by simp
  also have "\<dots> \<le> of_int \<lceil>1 / a\<rceil> / 2" by (simp add: divide_right_mono)
  also have "\<dots> \<le> of_int (\<lceil>1 / a\<rceil> - 1)" using c by simp
  finally have "\<lceil>1 / (a * 2)\<rceil> \<le> \<lceil>1 / a\<rceil> - 1" by (rule ceiling_le)
  with c a show "(a * 2, a) \<in> measure (\<lambda>a. nat \<lceil>1 / a\<rceil>)" by simp
qed

declare floorLog2_down.simps [simp del]

definition floorLog2 :: "rat \<Rightarrow> int" where
  "floorLog2 a = (if 1 \<le> a then int (floorLog2_up a) else - int (floorLog2_down a))"

text \<open>The nearest integer, a tie going to the even one.\<close>

definition roundHalfEven :: "rat \<Rightarrow> int" where
  "roundHalfEven m =
     (let f = \<lfloor>m\<rfloor>; r = m - of_int f in
      if r < 1 / 2 then f else if 1 / 2 < r then f + 1 else if even f then f else f + 1)"

definition roundMagnitude :: "rat \<Rightarrow> rat" where
  "roundMagnitude a =
     (let e = max (floorLog2 a) (- 1022);
          ulp = 2 powi (e - 52)
      in of_int (roundHalfEven (a / ulp)) * ulp)"

definition roundBinary64 :: "rat \<Rightarrow> number" where
  "roundBinary64 x =
     (if x = 0 then Finite 0
      else
        let y = roundMagnitude \<bar>x\<bar> in
        if 2 powi 1024 \<le> y then (if x < 0 then NegInf else PosInf)
        else Finite (if x < 0 then - y else y))"

subsection \<open>Numeric literals\<close>

definition isDecimalDigit :: "char \<Rightarrow> bool" where
  "isDecimalDigit c = (48 \<le> code c \<and> code c \<le> 57)"

definition isHexDigit :: "char \<Rightarrow> bool" where
  "isHexDigit c = (isDecimalDigit c \<or> (97 \<le> code c \<and> code c \<le> 102) \<or> (65 \<le> code c \<and> code c \<le> 70))"

definition digitValue :: "char \<Rightarrow> nat" where
  "digitValue c =
     (if isDecimalDigit c then code c - 48
      else if 97 \<le> code c then code c - 87 else code c - 55)"

definition radixValue :: "int \<Rightarrow> string \<Rightarrow> int" where
  "radixValue b ds = foldl (\<lambda>n c. b * n + int (digitValue c)) 0 ds"

text \<open>The text after a mantissa: nothing, or \<open>e\<close> or \<open>E\<close>, an optional sign and digits.\<close>

definition exponentDigits :: "string \<Rightarrow> int option" where
  "exponentDigits ds =
     (if ds \<noteq> [] \<and> list_all isDecimalDigit ds then Some (radixValue 10 ds) else None)"

definition exponentPart :: "string \<Rightarrow> int option" where
  "exponentPart t =
     (case t of
        [] \<Rightarrow> Some 0
      | c # r \<Rightarrow>
          if c = CHR ''e'' \<or> c = CHR ''E'' then
            (case r of
               [] \<Rightarrow> None
             | s # ds \<Rightarrow>
                 if s = CHR ''+'' then exponentDigits ds
                 else if s = CHR ''-'' then map_option uminus (exponentDigits ds)
                 else exponentDigits r)
          else None)"

definition pow10 :: "int \<Rightarrow> rat" where
  "pow10 e = (if 0 \<le> e then 10 ^ nat e else 1 / 10 ^ nat (- e))"

text \<open>
  \<open>StrUnsignedDecimalLiteral\<close>: \<open>Infinity\<close>, or digits with an optional fraction and an
  optional exponent, with a digit before or after the dot; its mathematical value is
  rounded to binary64.
\<close>

definition StrUnsignedDecimalLiteral :: "string \<Rightarrow> number" where
  "StrUnsignedDecimalLiteral t =
     (if t = ''Infinity'' then PosInf
      else
        let ip = takeWhile isDecimalDigit t;
            r1 = dropWhile isDecimalDigit t;
            dot = (r1 \<noteq> [] \<and> hd r1 = CHR ''.'');
            fp = (if dot then takeWhile isDecimalDigit (tl r1) else []);
            r2 = (if dot then dropWhile isDecimalDigit (tl r1) else r1)
        in if ip = [] \<and> fp = [] then NaN
           else case exponentPart r2 of
                  None \<Rightarrow> NaN
                | Some e \<Rightarrow>
                    roundBinary64 ((of_int (radixValue 10 ip)
                                    + of_int (radixValue 10 fp) / 10 ^ length fp) * pow10 e))"

text \<open>\<open>NonDecimalIntegerLiteral\<close>: \<open>0x\<close>, \<open>0o\<close> or \<open>0b\<close> and digits of that radix.\<close>

definition NonDecimalIntegerLiteral :: "string \<Rightarrow> int option" where
  "NonDecimalIntegerLiteral t =
     (case t of
        z # x # ds \<Rightarrow>
          if z = CHR ''0'' \<and> ds \<noteq> [] then
            if (x = CHR ''x'' \<or> x = CHR ''X'') \<and> list_all isHexDigit ds
              then Some (radixValue 16 ds)
            else if (x = CHR ''o'' \<or> x = CHR ''O'')
                    \<and> list_all (\<lambda>c. 48 \<le> code c \<and> code c \<le> 55) ds
              then Some (radixValue 8 ds)
            else if (x = CHR ''b'' \<or> x = CHR ''B'')
                    \<and> list_all (\<lambda>c. 48 \<le> code c \<and> code c \<le> 49) ds
              then Some (radixValue 2 ds)
            else None
          else None
      | _ \<Rightarrow> None)"

text \<open>
  \<open>StringToNumber\<close>, the conversion that \<^verbatim>\<open><\<close> and \<^verbatim>\<open>>\<close> apply to a string operand
  when the other operand is a number: white space is stripped, the empty text is 0, a
  numeric literal has the number value of its mathematical value and every other text is
  NaN.
\<close>

definition StringToNumber :: "string \<Rightarrow> number" where
  "StringToNumber s =
     (let t = trim s in
      if t = [] then Finite 0
      else case NonDecimalIntegerLiteral t of
             Some n \<Rightarrow> roundBinary64 (of_int n)
           | None \<Rightarrow>
               if hd t = CHR ''+'' then StrUnsignedDecimalLiteral (tl t)
               else if hd t = CHR ''-'' then negate (StrUnsignedDecimalLiteral (tl t))
               else StrUnsignedDecimalLiteral t)"

text \<open>
  The text of an integer, as string concatenation and the form controls write it: decimal
  digits, with a minus sign in front of a negative one.
\<close>

fun digits :: "nat \<Rightarrow> string" where
  "digits n = (if n < 10 then [char_of (48 + n)] else digits (n div 10) @ [char_of (48 + n mod 10)])"

declare digits.simps [simp del]

definition NumberToString :: "int \<Rightarrow> string" where
  "NumberToString n = (if n < 0 then CHR ''-'' # digits (nat (- n)) else digits (nat n))"

section \<open>Dates\<close>

text \<open>
  A \<^verbatim>\<open>Date\<close> holds a time value: the milliseconds since 1970-01-01T00:00:00Z, or NaN for
  an invalid date (\<open>None\<close>). What the host supplies is collected in a record: its
  \<^verbatim>\<open>Date.parse\<close>, the time value that \<^verbatim>\<open>new Date()\<close> reads, the offset of local time from
  UTC in milliseconds (taken as constant over the day in question), and the text of
  \<^verbatim>\<open>Math.random().toString(36)\<close>.
\<close>

record runtime =
  dateParse :: "string \<Rightarrow> int option"
  currentTime :: int
  localTZA :: int
  random36 :: string

definition msPerDay :: int where
  "msPerDay = 86400000"

definition Day :: "int \<Rightarrow> int" where
  "Day t = t div msPerDay"

definition LocalTime :: "runtime \<Rightarrow> int \<Rightarrow> int" where
  "LocalTime rt t = t + localTZA rt"

definition UTC :: "runtime \<Rightarrow> int \<Rightarrow> int" where
  "UTC rt t = t - localTZA rt"

text \<open>\<^verbatim>\<open>setHours(0, 0, 0, 0)\<close>: the start of the local day of \<open>t\<close>, as a time value.\<close>

definition setHours0 :: "runtime \<Rightarrow> int \<Rightarrow> int" where
  "setHours0 rt t = UTC rt (Day (LocalTime rt t) * msPerDay)"

text \<open>
  \<^verbatim>\<open>selectedDate >= today\<close> compares the two time values as numbers, and a comparison
  with NaN is false.
\<close>

definition isValidDate :: "runtime \<Rightarrow> string \<Rightarrow> bool" where
  "isValidDate rt dateString =
     (let selectedDate = dateParse rt dateString;
          today = setHours0 rt (currentTime rt)
      in case selectedDate of None \<Rightarrow> False | Some t \<Rightarrow> t \<ge> today)"

subsection \<open>The date-only form of the date-time string format\<close>

text \<open>
  A date input delivers \<^verbatim>\<open>YYYY-MM-DD\<close>. \<^verbatim>\<open>Date.parse\<close> reads this form as midnight UTC of
  that day. \<open>isoDateOnly\<close> is \<^verbatim>\<open>Date.parse\<close> on this form for the days of the calendar;
  it stands for the host's parser in the examples.
\<close>

definition InLeapYear :: "int \<Rightarrow> bool" where
  "InLeapYear y = (y mod 4 = 0 \<and> (y mod 100 \<noteq> 0 \<or> y mod 400 = 0))"

definition DayFromYear :: "int \<Rightarrow> int" where
  "DayFromYear y =
     365 * (y - 1970) + (y - 1969) div 4 - (y - 1901) div 100 + (y - 1601) div 400"

definition DaysInMonth :: "int \<Rightarrow> nat \<Rightarrow> nat" where
  "DaysInMonth y m =
     (if m = 2 then (if InLeapYear y then 29 else 28)
      else if m \<in> {4, 6, 9, 11} then 30 else 31)"

text \<open>The day number of the calendar day \<open>y\<close>-\<open>m\<close>-\<open>d\<close>, counted from 1970-01-01.\<close>

definition MakeDay :: "int \<Rightarrow> nat \<Rightarrow> nat \<Rightarrow> int" where
  "MakeDay y m d =
     DayFromYear y + int (sum_list (map (DaysInMonth y) [1..<m])) + int d - 1"

definition isoDateOnly :: "string \<Rightarrow> int option" where
  "isoDateOnly s =
     (let ys = take 4 s; ms = take 2 (drop 5 s); ds = take 2 (drop 8 s) in
      if length s = 10 \<and> list_all isDecimalDigit ys \<and> s ! 4 = CHR ''-''
         \<and> list_all isDecimalDigit ms \<and> s ! 7 = CHR ''-'' \<and> list_all isDecimalDigit ds
      then
        (let y = radixValue 10 ys; m = nat (radixValue 10 ms); d = nat (radixValue 10 ds) in
         if 1 \<le> m \<and> m \<le> 12 \<and> 1 \<le> d \<and> d \<le> DaysInMonth y m
         then Some (MakeDay y m d * msPerDay) else None)
      else None)"

section \<open>The page\<close>

text \<open>
  The handlers read and write the document. The part of it they touch: the \<^verbatim>\<open>value\<close> and
  \<^verbatim>\<open>checked\<close> of the form controls, by element id; the text of the error elements, where
  \<open>errorText p f\<close> is the \<^verbatim>\<open>textContent\<close> of the element with id \<open>f\<close> followed by
  \<open>Error\<close>; the \<^verbatim>\<open>textContent\<close> and \<^verbatim>\<open>style.display\<close> of the other elements, by id; the
  console; whether the window was scrolled to the top; and the delays of the timers set.
  Every element that the handlers look up is taken to exist, and the error elements are the
  elements of class \<open>error\<close>.
\<close>

record page =
  "value" :: "string \<Rightarrow> string"
  checked :: "string \<Rightarrow> bool"
  errorText :: "string \<Rightarrow> string"
  textContent :: "string \<Rightarrow> string"
  display :: "string \<Rightarrow> string"
  console :: "string list list"
  scrolledToTop :: bool
  timers :: "nat list"

definition clearErrors :: "page \<Rightarrow> page" where
  "clearErrors p = p\<lparr>errorText := (\<lambda>_. [])\<rparr>"

definition showError :: "string \<Rightarrow> string \<Rightarrow> page \<Rightarrow> page" where
  "showError fieldId message p = p\<lparr>errorText := (errorText p)(fieldId := message)\<rparr>"

text \<open>
  A handler carries its local \<^verbatim>\<open>isValid\<close> with the page. \<open>fail\<close> is the pair of
  statements \<^verbatim>\<open>showError(fieldId, message); isValid = false;\<close>.
\<close>

type_synonym validation = "bool \<times> page"

definition fail :: "string \<Rightarrow> string \<Rightarrow> validation \<Rightarrow> validation" where
  "fail fieldId message st = (False, showError fieldId message (snd st))"

section \<open>Booking form\<close>

text \<open>
  The \<^verbatim>\<open>if\<close> statements of \<^verbatim>\<open>handleBookingSubmit\<close>, in the order of the source. An empty
  string is the one falsy string, so \<^verbatim>\<open>!service\<close> is \<open>service = []\<close>.
\<close>

definition validateServiceType :: "string \<Rightarrow> validation \<Rightarrow> validation" where
  "validateServiceType service st =
     (if service = [] then fail ''service'' ''Please select a service type'' st else st)"

definition validateFullName :: "string \<Rightarrow> validation \<Rightarrow> validation" where
  "validateFullName fullName st =
     (if fullName = [] then fail ''fullName'' ''Full name is required'' st
      else if \<not> isValidName fullName
        then fail ''fullName''
               ''Full name must be at least 3 characters and contain only letters'' st
      else st)"

definition validateEmail :: "string \<Rightarrow> validation \<Rightarrow> validation" where
  "validateEmail email st =
     (if email = [] then fail ''email'' ''Email is required'' st
      else if \<not> isValidEmail email
        then fail ''email'' ''Please enter a valid email address'' st
      else st)"

definition validatePhone :: "string \<Rightarrow> validation \<Rightarrow> validation" where
  "validatePhone phone st =
     (if phone = [] then fail ''phone'' ''Phone number is required'' st
      else if \<not> isValidPhone phone
        then fail ''phone'' ''Please enter a valid phone number (at least 10 digits)'' st
      else st)"

definition validatePickupLocation :: "string \<Rightarrow> validation \<Rightarrow> validation" where
  "validatePickupLocation pickupLocation st =
     (if pickupLocation = [] then fail ''pickupLocation'' ''Pickup location is required'' st
      else if length (trim pickupLocation) < 3
        then fail ''pickupLocation'' ''Pickup location must be at least 3 characters'' st
      else st)"

definition validateDropoffLocation :: "string \<Rightarrow> validation \<Rightarrow> validation" where
  "validateDropoffLocation dropoffLocation st =
     (if dropoffLocation = [] then fail ''dropoffLocation'' ''Drop-off location is required'' st
      else if length (trim dropoffLocation) < 3
        then fail ''dropoffLocation'' ''Drop-off location must be at least 3 characters'' st
      else st)"

definition validateDifferent :: "string \<Rightarrow> string \<Rightarrow> validation \<Rightarrow> validation" where
  "validateDifferent pickupLocation dropoffLocation st =
     (if pickupLocation \<noteq> [] \<and> dropoffLocation \<noteq> []
         \<and> toLowerCase pickupLocation = toLowerCase dropoffLocation
      then fail ''dropoffLocation'' ''Pickup and drop-off locations must be different'' st
      else st)"

definition validateDate :: "runtime \<Rightarrow> string \<Rightarrow> validation \<Rightarrow> validation" where
  "validateDate rt date st =
     (if date = [] then fail ''date'' ''Date is required'' st
      else if \<not> isValidDate rt date
        then fail ''date'' ''Please select a date in the future'' st
      else st)"

definition validateTime :: "string \<Rightarrow> validation \<Rightarrow> validation" where
  "validateTime time st =
     (if time = [] then fail ''time'' ''Time is required'' st else st)"

text \<open>
  \<^verbatim>\<open>!passengers || passengers < 1 || passengers > 8\<close>, where \<^verbatim>\<open>passengers\<close> is the text
  of the control: each comparison converts the text to a number.
\<close>

definition validatePassengers :: "string \<Rightarrow> validation \<Rightarrow> validation" where
  "validatePassengers passengers st =
     (if passengers = [] \<or> less_number (StringToNumber passengers) (Finite 1)
         \<or> less_number (Finite 8) (StringToNumber passengers)
      then fail ''passengers'' ''Please select between 1 and 8 passengers'' st
      else st)"

definition validatePaymentMethod :: "string \<Rightarrow> validation \<Rightarrow> validation" where
  "validatePaymentMethod paymentMethod st =
     (if paymentMethod = [] then fail ''paymentMethod'' ''Please select a payment method'' st
      else st)"

definition validateTerms :: "bool \<Rightarrow> validation \<Rightarrow> validation" where
  "validateTerms terms st =
     (if \<not> terms then fail ''terms'' ''You must agree to the terms and conditions'' st
      else st)"

definition validatePrivacy :: "bool \<Rightarrow> validation \<Rightarrow> validation" where
  "validatePrivacy privacy st =
     (if \<not> privacy then fail ''privacy'' ''You must agree to the privacy policy'' st else st)"

text \<open>
  The digits of a base-36 numeral are \<open>0\<close> to \<open>9\<close> and \<open>a\<close> to \<open>z\<close>; on these
  \<^verbatim>\<open>toUpperCase\<close> moves the letters down by 32.
\<close>

definition toUpperCase36 :: "string \<Rightarrow> string" where
  "toUpperCase36 s =
     map (\<lambda>c. if 97 \<le> code c \<and> code c \<le> 122 then char_of (code c - 32) else c) s"

text \<open>The branch \<^verbatim>\<open>if (isValid) { ... }\<close> of the booking handler.\<close>

definition bookingSuccess :: "runtime \<Rightarrow> page \<Rightarrow> page" where
  "bookingSuccess rt p =
     (let bookingRef = ''BK'' @ toUpperCase36 (take 9 (drop 2 (random36 rt))) in
      p\<lparr>display := (display p)(''bookingForm'' := ''none'', ''bookingSuccess'' := ''block''),
        textContent := (textContent p)(''bookingRef'' := bookingRef),
        scrolledToTop := True,
        console := console p @
          [[''Booking Data:'', value p ''service'', value p ''fullName'', value p ''email'',
            value p ''phone'', value p ''pickupLocation'', value p ''dropoffLocation'',
            value p ''date'', value p ''time'', value p ''passengers'',
            value p ''paymentMethod'']]\<rparr>)"

definition bookingValidation :: "runtime \<Rightarrow> page \<Rightarrow> validation" where
  "bookingValidation rt p =
     (let service = value p ''service'';
          fullName = value p ''fullName'';
          email = value p ''email'';
          phone = value p ''phone'';
          pickupLocation = value p ''pickupLocation'';
          dropoffLocation = value p ''dropoffLocation'';
          date = value p ''date'';
          time = value p ''time'';
          passengers = value p ''passengers'';
          paymentMethod = value p ''paymentMethod'';
          terms = checked p ''terms'';
          privacy = checked p ''privacy''
      in validatePrivacy privacy
          (validateTerms terms
          (validatePaymentMethod paymentMethod
          (validatePassengers passengers
          (validateTime time
          (validateDate rt date
          (validateDifferent pickupLocation dropoffLocation
          (validateDropoffLocation dropoffLocation
          (validatePickupLocation pickupLocation
          (validatePhone phone
          (validateEmail email
          (validateFullName fullName
          (validateServiceType service (True, clearErrors p))))))))))))))"

definition handleBookingSubmit :: "runtime \<Rightarrow> page \<Rightarrow> page" where
  "handleBookingSubmit rt p =
     (case bookingValidation rt p of
        (isValid, p') \<Rightarrow> if isValid then bookingSuccess rt p' else p')"

section \<open>Fare estimate\<close>

text \<open>
  \<^verbatim>\<open>baseFares[service]\<close> reads a property of an object literal: an own property of the
  table, or a member inherited from \<^verbatim>\<open>Object.prototype\<close> (a function or an object, which is
  truthy and converts to NaN), or \<^verbatim>\<open>undefined\<close>.
\<close>

datatype property = Undefined | Num int | Inherited

definition baseFares :: "(string \<times> int) list" where
  "baseFares =
     [(''economy'', 10), (''comfort'', 15), (''xl'', 25), (''premium'', 40), (''delivery'', 8)]"

definition objectPrototype :: "string list" where
  "objectPrototype =
     [''constructor'', ''hasOwnProperty'', ''isPrototypeOf'', ''propertyIsEnumerable'',
      ''toLocaleString'', ''toString'', ''valueOf'', ''__proto__'', ''__defineGetter__'',
      ''__defineSetter__'', ''__lookupGetter__'', ''__lookupSetter__'']"

definition getProperty :: "string \<Rightarrow> property" where
  "getProperty service =
     (case map_of baseFares service of
        Some n \<Rightarrow> Num n
      | None \<Rightarrow> if service \<in> set objectPrototype then Inherited else Undefined)"

text \<open>\<^verbatim>\<open>x || 0\<close>: \<^verbatim>\<open>undefined\<close> and 0 are falsy.\<close>

definition orZero :: "property \<Rightarrow> property" where
  "orZero x = (case x of Undefined \<Rightarrow> Num 0 | Num n \<Rightarrow> if n = 0 then Num 0 else Num n
               | Inherited \<Rightarrow> Inherited)"

text \<open>
  \<^verbatim>\<open>x > 0\<close>: an inherited member converts to NaN, and the comparison is false. Where the
  comparison is true, \<^verbatim>\<open>baseFare\<close> is a number, which the first branch below reads.
\<close>

definition greaterZero :: "property \<Rightarrow> bool" where
  "greaterZero x = (case x of Num n \<Rightarrow> n > 0 | _ \<Rightarrow> False)"

definition updateEstimatedFare :: "string \<Rightarrow> page \<Rightarrow> page" where
  "updateEstimatedFare service p =
     (let baseFare = orZero (getProperty service) in
      if greaterZero baseFare then
        (case baseFare of
           Num b \<Rightarrow>
             (let distanceCharge = 10;
                  totalEstimate = b + distanceCharge
              in p\<lparr>textContent := (textContent p)
                     (''baseFare'' := ''$'' @ NumberToString b,
                      ''estimatedTotal'' := ''$'' @ NumberToString totalEstimate,
                      ''summaryTotal'' := ''$'' @ NumberToString totalEstimate),
                   display := (display p)(''priceEstimate'' := ''block'')\<rparr>)
         | _ \<Rightarrow> p)
      else p\<lparr>display := (display p)(''priceEstimate'' := ''none'')\<rparr>)"

section \<open>Contact form\<close>

text \<open>The \<^verbatim>\<open>if\<close> statements of \<^verbatim>\<open>handleContactSubmit\<close>, in the order of the source.\<close>

definition validateContactName :: "string \<Rightarrow> validation \<Rightarrow> validation" where
  "validateContactName name st =
     (if name = [] then fail ''name'' ''Name is required'' st
      else if \<not> isValidName name then fail ''name'' ''Please enter a valid name'' st
      else st)"

definition validateContactPhone :: "string \<Rightarrow> validation \<Rightarrow> validation" where
  "validateContactPhone phone st =
     (if phone = [] then fail ''phone'' ''Phone number is required'' st
      else if \<not> isValidPhone phone then fail ''phone'' ''Please enter a valid phone number'' st
      else st)"

definition validateSubject :: "string \<Rightarrow> validation \<Rightarrow> validation" where
  "validateSubject subject st =
     (if subject = [] then fail ''subject'' ''Please select a subject'' st else st)"

definition validateMessage :: "string \<Rightarrow> validation \<Rightarrow> validation" where
  "validateMessage message st =
     (if message = [] then fail ''message'' ''Message is required'' st
      else if length (trim message) < 10
        then fail ''message'' ''Message must be at least 10 characters'' st
      else st)"

text \<open>
  The branch \<^verbatim>\<open>if (isValid) { ... }\<close> of the contact handler; \<^verbatim>\<open>setTimeout\<close> records a
  timer of 3000 milliseconds.
\<close>

definition contactSuccess :: "page \<Rightarrow> page" where
  "contactSuccess p =
     p\<lparr>display := (display p)(''contactForm'' := ''none'', ''contactSuccess'' := ''block''),
       timers := timers p @ [3000],
       console := console p @
         [[''Contact Data:'', value p ''name'', value p ''email'', value p ''phone'',
           value p ''subject'', value p ''message'']]\<rparr>"

definition contactValidation :: "page \<Rightarrow> validation" where
  "contactValidation p =
     (let name = value p ''name'';
          email = value p ''email'';
          phone = value p ''phone'';
          subject = value p ''subject'';
          message = value p ''message''
      in validateMessage message
          (validateSubject subject
          (validateContactPhone phone
          (validateEmail email
          (validateContactName name (True, clearErrors p))))))"

definition handleContactSubmit :: "page \<Rightarrow> page" where
  "handleContactSubmit p =
     (case contactValidation p of
        (isValid, p') \<Rightarrow> if isValid then contactSuccess p' else p')"

section \<open>Example inputs\<close>

text \<open>
  A page built from the values of its controls and the state of its two check boxes, with
  nothing displayed yet.
\<close>

definition formPage :: "(string \<times> string) list \<Rightarrow> bool \<Rightarrow> bool \<Rightarrow> page" where
  "formPage values terms privacy =
     \<lparr>value = (\<lambda>k. case map_of values k of Some v \<Rightarrow> v | None \<Rightarrow> []),
      checked = (\<lambda>k. if k = ''terms'' then terms else if k = ''privacy'' then privacy else False),
      errorText = (\<lambda>k. []), textContent = (\<lambda>k. []), display = (\<lambda>k. []),
      console = [], scrolledToTop = False, timers = []\<rparr>"

text \<open>A booking in which every field passes, for the day after the ones of the hosts below.\<close>

definition validBooking :: "(string \<times> string) list" where
  "validBooking =
     [(''service'', ''economy''), (''fullName'', ''Ann Lee''), (''email'', ''a@b.c''),
      (''phone'', ''555-123-4567''), (''pickupLocation'', ''12 Main Street''),
      (''dropoffLocation'', ''Airport''), (''date'', ''2024-03-08''), (''time'', ''10:30''),
      (''passengers'', ''2''), (''paymentMethod'', ''card'')]"

text \<open>A contact message in which every field passes.\<close>

definition validContact :: "(string \<times> string) list" where
  "validContact =
     [(''name'', ''Ann Lee''), (''email'', ''a@b.c''), (''phone'', ''555-123-4567''),
      (''subject'', ''booking''), (''message'', ''Please call me back.'')]"

text \<open>
  Two hosts at noon local time on 2024-03-07: one in UTC, at 12:00Z, and one five hours
  west of UTC, at 17:00Z.
\<close>

definition utcNoon :: runtime where
  "utcNoon = \<lparr>dateParse = isoDateOnly, currentTime = 1709812800000, localTZA = 0,
              random36 = ''0.4fzyo82mvyr''\<rparr>"

definition newYorkNoon :: runtime where
  "newYorkNoon = \<lparr>dateParse = isoDateOnly, currentTime = 1709830800000,
                  localTZA = - 18000000, random36 = ''0.4fzyo82mvyr''\<rparr>"

section \<open>Readings of the specification used for comparison\<close>


text \<open>
  The passenger rule in the words of the specification: the value is present and is an
  integer from 1 to 8.
\<close>

definition spec_passengers_integer_in_range :: "string \<Rightarrow> bool" where
  "spec_passengers_integer_in_range s =
     (s \<noteq> [] \<and>
      (case StringToNumber s of
         Finite q \<Rightarrow> of_int \<lfloor>q\<rfloor> = q \<and> 1 \<le> q \<and> q \<le> 8
       | _ \<Rightarrow> False))"

text \<open>
  The location rule in the words of the specification: the two locations are equal when
  compared without regard to case after trimming.
\<close>

definition spec_same_location :: "string \<Rightarrow> string \<Rightarrow> bool" where
  "spec_same_location pickup dropoff = (toLowerCase (trim pickup) = toLowerCase (trim dropoff))"



section \<open>Facts about the matcher\<close>

lemma matches_One:
  "matches (One a # p) s \<longleftrightarrow> (\<exists>c cs. s = c # cs \<and> atom_ok a c \<and> matches p cs)"
  by (cases s) simp_all

lemma matches_Many:
  "matches (Many n a # p) s \<longleftrightarrow>
     (\<exists>u v. s = u @ v \<and> n \<le> length u \<and> list_all (atom_ok a) u \<and> matches p v)"
proof (induction s arbitrary: n)
  case Nil
  then show ?case by (cases n) auto
next
  case (Cons c cs)
  show ?case
  proof (cases n)
    case 0
    have "matches (Many 0 a # p) (c # cs) \<longleftrightarrow>
            matches p (c # cs) \<or> (atom_ok a c \<and> (\<exists>u v. cs = u @ v \<and> list_all (atom_ok a) u \<and> matches p v))"
      using Cons.IH [of 0] by simp
    also have "\<dots> \<longleftrightarrow> (\<exists>u v. c # cs = u @ v \<and> list_all (atom_ok a) u \<and> matches p v)"
      (is "?L \<longleftrightarrow> ?R")
    proof
      assume ?L
      then show ?R
      proof
        assume "matches p (c # cs)"
        then have "c # cs = [] @ (c # cs) \<and> list_all (atom_ok a) [] \<and> matches p (c # cs)" by simp
        then show ?R by blast
      next
        assume "atom_ok a c \<and> (\<exists>u v. cs = u @ v \<and> list_all (atom_ok a) u \<and> matches p v)"
        then obtain u v where "atom_ok a c" "cs = u @ v" "list_all (atom_ok a) u" "matches p v" by blast
        then have "c # cs = (c # u) @ v \<and> list_all (atom_ok a) (c # u) \<and> matches p v" by simp
        then show ?R by blast
      qed
    next
      assume ?R
      then obtain u v where uv: "c # cs = u @ v" "list_all (atom_ok a) u" "matches p v" by blast
      show ?L
      proof (cases u)
        case Nil
        with uv show ?thesis by simp
      next
        case (Cons d u')
        with uv have "atom_ok a c" "cs = u' @ v" "list_all (atom_ok a) u'" by simp_all
        with uv(3) show ?thesis by blast
      qed
    qed
    finally show ?thesis using 0 by simp
  next
    case (Suc m)
    have "matches (Many (Suc m) a # p) (c # cs) \<longleftrightarrow>
            atom_ok a c \<and> (\<exists>u v. cs = u @ v \<and> m \<le> length u \<and> list_all (atom_ok a) u \<and> matches p v)"
      using Cons.IH [of m] by simp
    also have "\<dots> \<longleftrightarrow> (\<exists>u v. c # cs = u @ v \<and> Suc m \<le> length u \<and> list_all (atom_ok a) u \<and> matches p v)"
      (is "?L \<longleftrightarrow> ?R")
    proof
      assume ?L
      then obtain u v where "atom_ok a c" "cs = u @ v" "m \<le> length u" "list_all (atom_ok a) u" "matches p v" by blast
      then have "c # cs = (c # u) @ v \<and> Suc m \<le> length (c # u) \<and> list_all (atom_ok a) (c # u) \<and> matches p v" by simp
      then show ?R by blast
    next
      assume ?R
      then obtain u v where uv: "c # cs = u @ v" "Suc m \<le> length u" "list_all (atom_ok a) u" "matches p v" by blast
      then obtain d u' where u: "u = d # u'" by (cases u) auto
      with uv have "atom_ok a c" "cs = u' @ v" "m \<le> length u'" "list_all (atom_ok a) u'" by simp_all
      with uv(4) show ?L by blast
    qed
    finally show ?thesis using Suc by simp
  qed
qed

lemma matches_Many_end:
  "matches [Many n a] s \<longleftrightarrow> n \<le> length s \<and> list_all (atom_ok a) s"
  by (auto simp: matches_Many)

section \<open>Facts about character ranges\<close>

lemma code_char_of: "n < 256 \<Longrightarrow> code (char_of n) = n"
  by (simp add: code_def)





section \<open>The name and phone validators\<close>



lemma email_class: "atom_ok (NegCls [Space, Ch CHR ''@'']) c \<longleftrightarrow> \<not> isWhiteSpace c \<and> c \<noteq> CHR ''@''"
  by simp

lemma trim_Nil: "trim [] = []"
  by (simp add: trim_def)







section \<open>The email validator\<close>

lemma list_all_email_class:
  "list_all (atom_ok (NegCls [Space, Ch CHR ''@''])) u \<longleftrightarrow>
     (\<forall>c\<in>set u. \<not> isWhiteSpace c \<and> c \<noteq> CHR ''@'')"
  by (simp add: list_all_iff)

lemma matches_ManyI:
  "n \<le> length u \<Longrightarrow> list_all (atom_ok a) u \<Longrightarrow> matches p v \<Longrightarrow> matches (Many n a # p) (u @ v)"
  using matches_Many by blast

lemma matches_ManyE:
  assumes "matches (Many n a # p) s"
  obtains u v where "s = u @ v" "n \<le> length u" "list_all (atom_ok a) u" "matches p v"
  using assms matches_Many by blast

lemma matches_OneE:
  assumes "matches (One a # p) s"
  obtains c cs where "s = c # cs" "atom_ok a c" "matches p cs"
  using assms matches_One by blast

lemma isValidEmail_decomp:
  "isValidEmail s \<longleftrightarrow>
     (\<exists>l a b. s = l @ ''@'' @ a @ ''.'' @ b \<and> l \<noteq> [] \<and> a \<noteq> [] \<and> b \<noteq> [] \<and>
        (\<forall>c\<in>set l \<union> set a \<union> set b. \<not> isWhiteSpace c \<and> c \<noteq> CHR ''@''))"
  (is "?L \<longleftrightarrow> ?R")
proof
  assume ?L
  then have 0: "matches [Many 1 (NegCls [Space, Ch CHR ''@'']), One (Lit CHR ''@''),
      Many 1 (NegCls [Space, Ch CHR ''@'']), One (Lit CHR ''.''),
      Many 1 (NegCls [Space, Ch CHR ''@''])] s"
    by (simp only: isValidEmail_def emailRegex_def)
  from 0 obtain l v where 1: "s = l @ v" "1 \<le> length l" "list_all (atom_ok (NegCls [Space, Ch CHR ''@''])) l"
      "matches [One (Lit CHR ''@''), Many 1 (NegCls [Space, Ch CHR ''@'']), One (Lit CHR ''.''),
                Many 1 (NegCls [Space, Ch CHR ''@''])] v"
    by (rule matches_ManyE)
  from 1(4) obtain c w where 2: "v = c # w" "atom_ok (Lit CHR ''@'') c"
      "matches [Many 1 (NegCls [Space, Ch CHR ''@'']), One (Lit CHR ''.''),
                Many 1 (NegCls [Space, Ch CHR ''@''])] w"
    by (rule matches_OneE)
  from 2(3) obtain a x where 3: "w = a @ x" "1 \<le> length a" "list_all (atom_ok (NegCls [Space, Ch CHR ''@''])) a"
      "matches [One (Lit CHR ''.''), Many 1 (NegCls [Space, Ch CHR ''@''])] x"
    by (rule matches_ManyE)
  from 3(4) obtain d b where 4: "x = d # b" "atom_ok (Lit CHR ''.'') d"
      "matches [Many 1 (NegCls [Space, Ch CHR ''@''])] b"
    by (rule matches_OneE)
  from 4(3) have 5: "1 \<le> length b" "list_all (atom_ok (NegCls [Space, Ch CHR ''@''])) b"
    by (simp_all only: matches_Many_end)
  have cd: "c = CHR ''@''" "d = CHR ''.''" using 2(2) 4(2) by simp_all
  have "s = l @ ''@'' @ a @ ''.'' @ b" using 1(1) 2(1) 3(1) 4(1) cd by simp
  moreover have "l \<noteq> []" "a \<noteq> []" "b \<noteq> []" using 1(2) 3(2) 5(1) by auto
  moreover have "\<forall>c\<in>set l \<union> set a \<union> set b. \<not> isWhiteSpace c \<and> c \<noteq> CHR ''@''"
    using 1(3) 3(3) 5(2) by (simp only: list_all_email_class) blast
  ultimately have "s = l @ ''@'' @ a @ ''.'' @ b \<and> l \<noteq> [] \<and> a \<noteq> [] \<and> b \<noteq> [] \<and>
        (\<forall>c\<in>set l \<union> set a \<union> set b. \<not> isWhiteSpace c \<and> c \<noteq> CHR ''@'')"
    by (intro conjI)
  then show ?R by (intro exI)
next
  assume ?R
  then obtain l a b where s: "s = l @ ''@'' @ a @ ''.'' @ b" and ne: "l \<noteq> []" "a \<noteq> []" "b \<noteq> []"
    and cls: "\<forall>c\<in>set l \<union> set a \<union> set b. \<not> isWhiteSpace c \<and> c \<noteq> CHR ''@''"
    by (elim exE conjE)
  have la: "list_all (atom_ok (NegCls [Space, Ch CHR ''@''])) l"
    and aa: "list_all (atom_ok (NegCls [Space, Ch CHR ''@''])) a"
    and ba: "list_all (atom_ok (NegCls [Space, Ch CHR ''@''])) b"
    using cls by (simp_all only: list_all_email_class) blast+
  have len: "1 \<le> length l" "1 \<le> length a" "1 \<le> length b"
    using ne by (simp_all add: Suc_le_eq)
  have 5: "matches [Many 1 (NegCls [Space, Ch CHR ''@''])] b"
    using len(3) ba by (simp only: matches_Many_end)
  have 4: "matches [One (Lit CHR ''.''), Many 1 (NegCls [Space, Ch CHR ''@''])] (''.'' @ b)"
    using 5 by simp
  have 3: "matches [Many 1 (NegCls [Space, Ch CHR ''@'']), One (Lit CHR ''.''),
                Many 1 (NegCls [Space, Ch CHR ''@''])] (a @ ''.'' @ b)"
    by (rule matches_ManyI [OF len(2) aa 4])
  have 2: "matches [One (Lit CHR ''@''), Many 1 (NegCls [Space, Ch CHR ''@'']), One (Lit CHR ''.''),
                Many 1 (NegCls [Space, Ch CHR ''@''])] (''@'' @ a @ ''.'' @ b)"
    using 3 by simp
  show ?L
    unfolding isValidEmail_def emailRegex_def s by (rule matches_ManyI [OF len(1) la 2])
qed




lemma isValidEmailE:
  assumes "isValidEmail s"
  obtains l a b where "s = l @ ''@'' @ a @ ''.'' @ b" "l \<noteq> []" "a \<noteq> []" "b \<noteq> []"
    "\<forall>c\<in>set l \<union> set a \<union> set b. \<not> isWhiteSpace c \<and> c \<noteq> CHR ''@''"
proof -
  from assms have "\<exists>l a b. s = l @ ''@'' @ a @ ''.'' @ b \<and> l \<noteq> [] \<and> a \<noteq> [] \<and> b \<noteq> [] \<and>
        (\<forall>c\<in>set l \<union> set a \<union> set b. \<not> isWhiteSpace c \<and> c \<noteq> CHR ''@'')"
    by (simp only: isValidEmail_decomp)
  then show thesis using that by (elim exE conjE)
qed



lemma email_parts_imp:
  assumes s: "s = l @ ''@'' @ a @ ''.'' @ b"
    and cls: "\<forall>c\<in>set l \<union> set a \<union> set b. \<not> isWhiteSpace c \<and> c \<noteq> CHR ''@''"
  shows "count_list s CHR ''@'' = 1" "\<forall>c\<in>set s. \<not> isWhiteSpace c"
proof -
  have dot_ws: "\<not> isWhiteSpace CHR ''.''" "\<not> isWhiteSpace CHR ''@''"
    by (simp_all add: isWhiteSpace_def code_def)
  from cls have "CHR ''@'' \<notin> set l" "CHR ''@'' \<notin> set a" "CHR ''@'' \<notin> set b" by blast+
  then have "count_list l CHR ''@'' = 0" "count_list a CHR ''@'' = 0" "count_list b CHR ''@'' = 0"
    by (simp_all add: count_list_0_iff)
  then show "count_list s CHR ''@'' = 1" by (simp add: s)
  from cls have "\<forall>c\<in>set l. \<not> isWhiteSpace c" "\<forall>c\<in>set a. \<not> isWhiteSpace c" "\<forall>c\<in>set b. \<not> isWhiteSpace c"
    by blast+
  then show "\<forall>c\<in>set s. \<not> isWhiteSpace c" using dot_ws by (simp add: s ball_Un)
qed



lemma email_parts_conv:
  assumes s: "s = l @ ''@'' @ a @ ''.'' @ b"
    and c1: "count_list s CHR ''@'' = 1" and nws: "\<forall>c\<in>set s. \<not> isWhiteSpace c"
  shows "\<forall>c\<in>set l \<union> set a \<union> set b. \<not> isWhiteSpace c \<and> c \<noteq> CHR ''@''"
proof -
  from c1 have "count_list l CHR ''@'' = 0" "count_list a CHR ''@'' = 0" "count_list b CHR ''@'' = 0"
    by (simp_all add: s)
  then have "CHR ''@'' \<notin> set l" "CHR ''@'' \<notin> set a" "CHR ''@'' \<notin> set b"
    by (simp_all add: count_list_0_iff)
  moreover from nws have "\<forall>c\<in>set l. \<not> isWhiteSpace c" "\<forall>c\<in>set a. \<not> isWhiteSpace c" "\<forall>c\<in>set b. \<not> isWhiteSpace c"
    by (simp_all add: s ball_Un)
  ultimately show ?thesis by blast
qed


text \<open>
  Claim C7. \<open>isValidEmail s\<close> holds exactly when \<open>s\<close> has exactly one \<open>@\<close>, no white
  space anywhere, a non-empty part before the \<open>@\<close>, and after the \<open>@\<close> a dot with a
  non-empty part on each side of it. A string with no \<open>@\<close>, or with no dot after the
  \<open>@\<close>, is rejected; \<open>a@b.c\<close> is accepted.
\<close>

theorem isValidEmail_iff:
  "(isValidEmail s \<longleftrightarrow>
      count_list s CHR ''@'' = 1 \<and> (\<forall>c\<in>set s. \<not> isWhiteSpace c) \<and>
      (\<exists>l a b. s = l @ ''@'' @ a @ ''.'' @ b \<and> l \<noteq> [] \<and> a \<noteq> [] \<and> b \<noteq> []))
   \<and> (CHR ''@'' \<notin> set s \<longrightarrow> \<not> isValidEmail s)
   \<and> ((\<forall>u v. s = u @ ''@'' @ v \<longrightarrow> CHR ''.'' \<notin> set v) \<longrightarrow> \<not> isValidEmail s)
   \<and> isValidEmail ''a@b.c''"
proof -
  have iff: "isValidEmail s \<longleftrightarrow>
      count_list s CHR ''@'' = 1 \<and> (\<forall>c\<in>set s. \<not> isWhiteSpace c) \<and>
      (\<exists>l a b. s = l @ ''@'' @ a @ ''.'' @ b \<and> l \<noteq> [] \<and> a \<noteq> [] \<and> b \<noteq> [])"
    (is "_ \<longleftrightarrow> ?C \<and> ?W \<and> ?D")
  proof
    assume "isValidEmail s"
    then obtain l a b where s: "s = l @ ''@'' @ a @ ''.'' @ b" and ne: "l \<noteq> []" "a \<noteq> []" "b \<noteq> []"
      and cls: "\<forall>c\<in>set l \<union> set a \<union> set b. \<not> isWhiteSpace c \<and> c \<noteq> CHR ''@''"
      by (rule isValidEmailE)
    have ?C ?W using email_parts_imp [OF s cls] by blast+
    moreover have ?D using s ne by blast
    ultimately show "?C \<and> ?W \<and> ?D" by (intro conjI)
  next
    assume r: "?C \<and> ?W \<and> ?D"
    then obtain l a b where s: "s = l @ ''@'' @ a @ ''.'' @ b" and ne: "l \<noteq> []" "a \<noteq> []" "b \<noteq> []"
      by (elim exE conjE)
    from r have "?C" "?W" by blast+
    then have "\<forall>c\<in>set l \<union> set a \<union> set b. \<not> isWhiteSpace c \<and> c \<noteq> CHR ''@''"
      by (rule email_parts_conv [OF s])
    with s ne have "s = l @ ''@'' @ a @ ''.'' @ b \<and> l \<noteq> [] \<and> a \<noteq> [] \<and> b \<noteq> [] \<and>
        (\<forall>c\<in>set l \<union> set a \<union> set b. \<not> isWhiteSpace c \<and> c \<noteq> CHR ''@'')"
      by (intro conjI)
    then show "isValidEmail s" unfolding isValidEmail_decomp by (intro exI)
  qed
  have no_at: "CHR ''@'' \<notin> set s \<longrightarrow> \<not> isValidEmail s"
  proof (intro impI notI)
    assume h: "CHR ''@'' \<notin> set s" and v: "isValidEmail s"
    from v obtain l a b where "s = l @ ''@'' @ a @ ''.'' @ b" by (rule isValidEmailE)
    then have "CHR ''@'' \<in> set s" by simp
    with h show False by simp
  qed
  have no_dot: "(\<forall>u v. s = u @ ''@'' @ v \<longrightarrow> CHR ''.'' \<notin> set v) \<longrightarrow> \<not> isValidEmail s"
  proof (intro impI notI)
    assume h: "\<forall>u v. s = u @ ''@'' @ v \<longrightarrow> CHR ''.'' \<notin> set v" and v: "isValidEmail s"
    from v obtain l a b where s: "s = l @ ''@'' @ (a @ ''.'' @ b)" by (rule isValidEmailE)
    with h have "CHR ''.'' \<notin> set (a @ ''.'' @ b)" by blast
    then show False by simp
  qed
  have "isValidEmail ''a@b.c''" by code_simp
  with iff no_at no_dot show ?thesis by (intro conjI)
qed

theorem isValidEmail_iff_witness:
  "isValidEmail ''user@example.com''
   \<and> CHR ''@'' \<notin> set ''ann.example.com'' \<and> \<not> isValidEmail ''ann.example.com''"
proof -
  have c: "count_list ''user@example.com'' CHR ''@'' = 1" by simp
  have w: "\<forall>c\<in>set ''user@example.com''. \<not> isWhiteSpace c"
    by (simp add: isWhiteSpace_def code_def)
  have "''user@example.com'' = ''user'' @ ''@'' @ ''example'' @ ''.'' @ ''com''
      \<and> ''user'' \<noteq> [] \<and> ''example'' \<noteq> [] \<and> ''com'' \<noteq> []"
    by simp
  then have d: "\<exists>l a b. ''user@example.com'' = l @ ''@'' @ a @ ''.'' @ b
      \<and> l \<noteq> [] \<and> a \<noteq> [] \<and> b \<noteq> []"
    by (intro exI)
  from c w d isValidEmail_iff [of "''user@example.com''"]
  have 1: "isValidEmail ''user@example.com''" by blast
  have 2: "CHR ''@'' \<notin> set ''ann.example.com''" by simp
  with isValidEmail_iff [of "''ann.example.com''"]
  have 3: "\<not> isValidEmail ''ann.example.com''" by blast
  from 1 2 3 show ?thesis by (intro conjI)
qed

section \<open>The steps of the handlers\<close>

text \<open>
  Each step writes at most the error text of its own field and leaves the rest of the page
  alone; \<open>isValid\<close> stays true exactly as long as no error text has been written.
\<close>

lemma validateServiceType_errorText:
  "errorText (snd (validateServiceType service st)) k =
     (if k = ''service'' then (if service = []
          then ''Please select a service type''
          else errorText (snd st) k)
      else errorText (snd st) k)"
  by (simp add: validateServiceType_def fail_def showError_def)

lemma validateServiceType_frame:
  "snd (validateServiceType service st) =
     (snd st)\<lparr>errorText := errorText (snd (validateServiceType service st))\<rparr>"
  by (simp add: validateServiceType_def fail_def showError_def)

lemma validateServiceType_sound:
  "fst st = (\<forall>k. errorText (snd st) k = []) \<Longrightarrow>
   fst (validateServiceType service st) = (\<forall>k. errorText (snd (validateServiceType service st)) k = [])"
  by (auto simp: validateServiceType_def fail_def showError_def)

lemma validateFullName_errorText:
  "errorText (snd (validateFullName fullName st)) k =
     (if k = ''fullName'' then (if fullName = []
          then ''Full name is required''
          else if \<not> isValidName fullName
          then ''Full name must be at least 3 characters and contain only letters''
          else errorText (snd st) k)
      else errorText (snd st) k)"
  by (simp add: validateFullName_def fail_def showError_def)

lemma validateFullName_frame:
  "snd (validateFullName fullName st) =
     (snd st)\<lparr>errorText := errorText (snd (validateFullName fullName st))\<rparr>"
  by (simp add: validateFullName_def fail_def showError_def)

lemma validateFullName_sound:
  "fst st = (\<forall>k. errorText (snd st) k = []) \<Longrightarrow>
   fst (validateFullName fullName st) = (\<forall>k. errorText (snd (validateFullName fullName st)) k = [])"
  by (auto simp: validateFullName_def fail_def showError_def)

lemma validateEmail_errorText:
  "errorText (snd (validateEmail email st)) k =
     (if k = ''email'' then (if email = []
          then ''Email is required''
          else if \<not> isValidEmail email
          then ''Please enter a valid email address''
          else errorText (snd st) k)
      else errorText (snd st) k)"
  by (simp add: validateEmail_def fail_def showError_def)

lemma validateEmail_frame:
  "snd (validateEmail email st) =
     (snd st)\<lparr>errorText := errorText (snd (validateEmail email st))\<rparr>"
  by (simp add: validateEmail_def fail_def showError_def)

lemma validateEmail_sound:
  "fst st = (\<forall>k. errorText (snd st) k = []) \<Longrightarrow>
   fst (validateEmail email st) = (\<forall>k. errorText (snd (validateEmail email st)) k = [])"
  by (auto simp: validateEmail_def fail_def showError_def)

lemma validatePhone_errorText:
  "errorText (snd (validatePhone phone st)) k =
     (if k = ''phone'' then (if phone = []
          then ''Phone number is required''
          else if \<not> isValidPhone phone
          then ''Please enter a valid phone number (at least 10 digits)''
          else errorText (snd st) k)
      else errorText (snd st) k)"
  by (simp add: validatePhone_def fail_def showError_def)

lemma validatePhone_frame:
  "snd (validatePhone phone st) =
     (snd st)\<lparr>errorText := errorText (snd (validatePhone phone st))\<rparr>"
  by (simp add: validatePhone_def fail_def showError_def)

lemma validatePhone_sound:
  "fst st = (\<forall>k. errorText (snd st) k = []) \<Longrightarrow>
   fst (validatePhone phone st) = (\<forall>k. errorText (snd (validatePhone phone st)) k = [])"
  by (auto simp: validatePhone_def fail_def showError_def)

lemma validatePickupLocation_errorText:
  "errorText (snd (validatePickupLocation pickupLocation st)) k =
     (if k = ''pickupLocation'' then (if pickupLocation = []
          then ''Pickup location is required''
          else if length (trim pickupLocation) < 3
          then ''Pickup location must be at least 3 characters''
          else errorText (snd st) k)
      else errorText (snd st) k)"
  by (simp add: validatePickupLocation_def fail_def showError_def)

lemma validatePickupLocation_frame:
  "snd (validatePickupLocation pickupLocation st) =
     (snd st)\<lparr>errorText := errorText (snd (validatePickupLocation pickupLocation st))\<rparr>"
  by (simp add: validatePickupLocation_def fail_def showError_def)

lemma validatePickupLocation_sound:
  "fst st = (\<forall>k. errorText (snd st) k = []) \<Longrightarrow>
   fst (validatePickupLocation pickupLocation st) = (\<forall>k. errorText (snd (validatePickupLocation pickupLocation st)) k = [])"
  by (auto simp: validatePickupLocation_def fail_def showError_def)

lemma validateDropoffLocation_errorText:
  "errorText (snd (validateDropoffLocation dropoffLocation st)) k =
     (if k = ''dropoffLocation'' then (if dropoffLocation = []
          then ''Drop-off location is required''
          else if length (trim dropoffLocation) < 3
          then ''Drop-off location must be at least 3 characters''
          else errorText (snd st) k)
      else errorText (snd st) k)"
  by (simp add: validateDropoffLocation_def fail_def showError_def)

lemma validateDropoffLocation_frame:
  "snd (validateDropoffLocation dropoffLocation st) =
     (snd st)\<lparr>errorText := errorText (snd (validateDropoffLocation dropoffLocation st))\<rparr>"
  by (simp add: validateDropoffLocation_def fail_def showError_def)

lemma validateDropoffLocation_sound:
  "fst st = (\<forall>k. errorText (snd st) k = []) \<Longrightarrow>
   fst (validateDropoffLocation dropoffLocation st) = (\<forall>k. errorText (snd (validateDropoffLocation dropoffLocation st)) k = [])"
  by (auto simp: validateDropoffLocation_def fail_def showError_def)

lemma validateDifferent_errorText:
  "errorText (snd (validateDifferent pickupLocation dropoffLocation st)) k =
     (if k = ''dropoffLocation'' then (if pickupLocation \<noteq> []
             \<and> dropoffLocation \<noteq> []
             \<and> toLowerCase pickupLocation = toLowerCase dropoffLocation
          then ''Pickup and drop-off locations must be different''
          else errorText (snd st) k)
      else errorText (snd st) k)"
  by (simp add: validateDifferent_def fail_def showError_def)

lemma validateDifferent_frame:
  "snd (validateDifferent pickupLocation dropoffLocation st) =
     (snd st)\<lparr>errorText := errorText (snd (validateDifferent pickupLocation dropoffLocation st))\<rparr>"
  by (simp add: validateDifferent_def fail_def showError_def)

lemma validateDifferent_sound:
  "fst st = (\<forall>k. errorText (snd st) k = []) \<Longrightarrow>
   fst (validateDifferent pickupLocation dropoffLocation st) = (\<forall>k. errorText (snd (validateDifferent pickupLocation dropoffLocation st)) k = [])"
  by (auto simp: validateDifferent_def fail_def showError_def)

lemma validateDate_errorText:
  "errorText (snd (validateDate rt date st)) k =
     (if k = ''date'' then (if date = []
          then ''Date is required''
          else if \<not> isValidDate rt date
          then ''Please select a date in the future''
          else errorText (snd st) k)
      else errorText (snd st) k)"
  by (simp add: validateDate_def fail_def showError_def)

lemma validateDate_frame:
  "snd (validateDate rt date st) =
     (snd st)\<lparr>errorText := errorText (snd (validateDate rt date st))\<rparr>"
  by (simp add: validateDate_def fail_def showError_def)

lemma validateDate_sound:
  "fst st = (\<forall>k. errorText (snd st) k = []) \<Longrightarrow>
   fst (validateDate rt date st) = (\<forall>k. errorText (snd (validateDate rt date st)) k = [])"
  by (auto simp: validateDate_def fail_def showError_def)

lemma validateTime_errorText:
  "errorText (snd (validateTime time st)) k =
     (if k = ''time'' then (if time = []
          then ''Time is required''
          else errorText (snd st) k)
      else errorText (snd st) k)"
  by (simp add: validateTime_def fail_def showError_def)

lemma validateTime_frame:
  "snd (validateTime time st) =
     (snd st)\<lparr>errorText := errorText (snd (validateTime time st))\<rparr>"
  by (simp add: validateTime_def fail_def showError_def)

lemma validateTime_sound:
  "fst st = (\<forall>k. errorText (snd st) k = []) \<Longrightarrow>
   fst (validateTime time st) = (\<forall>k. errorText (snd (validateTime time st)) k = [])"
  by (auto simp: validateTime_def fail_def showError_def)

lemma validatePassengers_errorText:
  "errorText (snd (validatePassengers passengers st)) k =
     (if k = ''passengers'' then (if passengers = []
             \<or> less_number (StringToNumber passengers) (Finite 1)
             \<or> less_number (Finite 8) (StringToNumber passengers)
          then ''Please select between 1 and 8 passengers''
          else errorText (snd st) k)
      else errorText (snd st) k)"
  by (simp add: validatePassengers_def fail_def showError_def)

lemma validatePassengers_frame:
  "snd (validatePassengers passengers st) =
     (snd st)\<lparr>errorText := errorText (snd (validatePassengers passengers st))\<rparr>"
  by (simp add: validatePassengers_def fail_def showError_def)

lemma validatePassengers_sound:
  "fst st = (\<forall>k. errorText (snd st) k = []) \<Longrightarrow>
   fst (validatePassengers passengers st) = (\<forall>k. errorText (snd (validatePassengers passengers st)) k = [])"
  by (auto simp: validatePassengers_def fail_def showError_def)

lemma validatePaymentMethod_errorText:
  "errorText (snd (validatePaymentMethod paymentMethod st)) k =
     (if k = ''paymentMethod'' then (if paymentMethod = []
          then ''Please select a payment method''
          else errorText (snd st) k)
      else errorText (snd st) k)"
  by (simp add: validatePaymentMethod_def fail_def showError_def)

lemma validatePaymentMethod_frame:
  "snd (validatePaymentMethod paymentMethod st) =
     (snd st)\<lparr>errorText := errorText (snd (validatePaymentMethod paymentMethod st))\<rparr>"
  by (simp add: validatePaymentMethod_def fail_def showError_def)

lemma validatePaymentMethod_sound:
  "fst st = (\<forall>k. errorText (snd st) k = []) \<Longrightarrow>
   fst (validatePaymentMethod paymentMethod st) = (\<forall>k. errorText (snd (validatePaymentMethod paymentMethod st)) k = [])"
  by (auto simp: validatePaymentMethod_def fail_def showError_def)

lemma validateTerms_errorText:
  "errorText (snd (validateTerms terms st)) k =
     (if k = ''terms'' then (if \<not> terms
          then ''You must agree to the terms and conditions''
          else errorText (snd st) k)
      else errorText (snd st) k)"
  by (simp add: validateTerms_def fail_def showError_def)

lemma validateTerms_frame:
  "snd (validateTerms terms st) =
     (snd st)\<lparr>errorText := errorText (snd (validateTerms terms st))\<rparr>"
  by (simp add: validateTerms_def fail_def showError_def)

lemma validateTerms_sound:
  "fst st = (\<forall>k. errorText (snd st) k = []) \<Longrightarrow>
   fst (validateTerms terms st) = (\<forall>k. errorText (snd (validateTerms terms st)) k = [])"
  by (auto simp: validateTerms_def fail_def showError_def)

lemma validatePrivacy_errorText:
  "errorText (snd (validatePrivacy privacy st)) k =
     (if k = ''privacy'' then (if \<not> privacy
          then ''You must agree to the privacy policy''
          else errorText (snd st) k)
      else errorText (snd st) k)"
  by (simp add: validatePrivacy_def fail_def showError_def)

lemma validatePrivacy_frame:
  "snd (validatePrivacy privacy st) =
     (snd st)\<lparr>errorText := errorText (snd (validatePrivacy privacy st))\<rparr>"
  by (simp add: validatePrivacy_def fail_def showError_def)

lemma validatePrivacy_sound:
  "fst st = (\<forall>k. errorText (snd st) k = []) \<Longrightarrow>
   fst (validatePrivacy privacy st) = (\<forall>k. errorText (snd (validatePrivacy privacy st)) k = [])"
  by (auto simp: validatePrivacy_def fail_def showError_def)

lemma validateContactName_errorText:
  "errorText (snd (validateContactName name st)) k =
     (if k = ''name'' then (if name = []
          then ''Name is required''
          else if \<not> isValidName name
          then ''Please enter a valid name''
          else errorText (snd st) k)
      else errorText (snd st) k)"
  by (simp add: validateContactName_def fail_def showError_def)

lemma validateContactName_frame:
  "snd (validateContactName name st) =
     (snd st)\<lparr>errorText := errorText (snd (validateContactName name st))\<rparr>"
  by (simp add: validateContactName_def fail_def showError_def)

lemma validateContactName_sound:
  "fst st = (\<forall>k. errorText (snd st) k = []) \<Longrightarrow>
   fst (validateContactName name st) = (\<forall>k. errorText (snd (validateContactName name st)) k = [])"
  by (auto simp: validateContactName_def fail_def showError_def)

lemma validateContactPhone_errorText:
  "errorText (snd (validateContactPhone phone st)) k =
     (if k = ''phone'' then (if phone = []
          then ''Phone number is required''
          else if \<not> isValidPhone phone
          then ''Please enter a valid phone number''
          else errorText (snd st) k)
      else errorText (snd st) k)"
  by (simp add: validateContactPhone_def fail_def showError_def)

lemma validateContactPhone_frame:
  "snd (validateContactPhone phone st) =
     (snd st)\<lparr>errorText := errorText (snd (validateContactPhone phone st))\<rparr>"
  by (simp add: validateContactPhone_def fail_def showError_def)

lemma validateContactPhone_sound:
  "fst st = (\<forall>k. errorText (snd st) k = []) \<Longrightarrow>
   fst (validateContactPhone phone st) = (\<forall>k. errorText (snd (validateContactPhone phone st)) k = [])"
  by (auto simp: validateContactPhone_def fail_def showError_def)

lemma validateSubject_errorText:
  "errorText (snd (validateSubject subject st)) k =
     (if k = ''subject'' then (if subject = []
          then ''Please select a subject''
          else errorText (snd st) k)
      else errorText (snd st) k)"
  by (simp add: validateSubject_def fail_def showError_def)

lemma validateSubject_frame:
  "snd (validateSubject subject st) =
     (snd st)\<lparr>errorText := errorText (snd (validateSubject subject st))\<rparr>"
  by (simp add: validateSubject_def fail_def showError_def)

lemma validateSubject_sound:
  "fst st = (\<forall>k. errorText (snd st) k = []) \<Longrightarrow>
   fst (validateSubject subject st) = (\<forall>k. errorText (snd (validateSubject subject st)) k = [])"
  by (auto simp: validateSubject_def fail_def showError_def)

lemma validateMessage_errorText:
  "errorText (snd (validateMessage message st)) k =
     (if k = ''message'' then (if message = []
          then ''Message is required''
          else if length (trim message) < 10
          then ''Message must be at least 10 characters''
          else errorText (snd st) k)
      else errorText (snd st) k)"
  by (simp add: validateMessage_def fail_def showError_def)

lemma validateMessage_frame:
  "snd (validateMessage message st) =
     (snd st)\<lparr>errorText := errorText (snd (validateMessage message st))\<rparr>"
  by (simp add: validateMessage_def fail_def showError_def)

lemma validateMessage_sound:
  "fst st = (\<forall>k. errorText (snd st) k = []) \<Longrightarrow>
   fst (validateMessage message st) = (\<forall>k. errorText (snd (validateMessage message st)) k = [])"
  by (auto simp: validateMessage_def fail_def showError_def)

section \<open>The handlers as a whole\<close>

text \<open>
  Two pages that differ in their error texts only: the relation composes along the steps.
\<close>

lemma frame_trans:
  assumes a: "q = p\<lparr>errorText := errorText q\<rparr>" and b: "r = q\<lparr>errorText := errorText r\<rparr>"
  shows "r = p\<lparr>errorText := errorText r\<rparr>"
proof -
  have "r = (p\<lparr>errorText := errorText q\<rparr>)\<lparr>errorText := errorText r\<rparr>"
    by (subst b, subst a, rule refl)
  then show ?thesis by simp
qed

subsection \<open>Booking\<close>

lemmas booking_step_errorText =
  validateServiceType_errorText
  validateFullName_errorText
  validateEmail_errorText
  validatePhone_errorText
  validatePickupLocation_errorText
  validateDropoffLocation_errorText
  validateDifferent_errorText
  validateDate_errorText
  validateTime_errorText
  validatePassengers_errorText
  validatePaymentMethod_errorText
  validateTerms_errorText
  validatePrivacy_errorText

lemma booking_error_service:
  "errorText (snd (bookingValidation rt p)) ''service'' =
     (if value p ''service'' = [] then ''Please select a service type''
      else [])"
  by (simp add: bookingValidation_def Let_def booking_step_errorText clearErrors_def)

lemma booking_error_fullName:
  "errorText (snd (bookingValidation rt p)) ''fullName'' =
     (if value p ''fullName'' = [] then ''Full name is required''
      else if \<not> isValidName (value p ''fullName'')
        then ''Full name must be at least 3 characters and contain only letters''
      else [])"
  by (simp add: bookingValidation_def Let_def booking_step_errorText clearErrors_def)

lemma booking_error_email:
  "errorText (snd (bookingValidation rt p)) ''email'' =
     (if value p ''email'' = [] then ''Email is required''
      else if \<not> isValidEmail (value p ''email'')
        then ''Please enter a valid email address''
      else [])"
  by (simp add: bookingValidation_def Let_def booking_step_errorText clearErrors_def)

lemma booking_error_phone:
  "errorText (snd (bookingValidation rt p)) ''phone'' =
     (if value p ''phone'' = [] then ''Phone number is required''
      else if \<not> isValidPhone (value p ''phone'')
        then ''Please enter a valid phone number (at least 10 digits)''
      else [])"
  by (simp add: bookingValidation_def Let_def booking_step_errorText clearErrors_def)

lemma booking_error_pickupLocation:
  "errorText (snd (bookingValidation rt p)) ''pickupLocation'' =
     (if value p ''pickupLocation'' = [] then ''Pickup location is required''
      else if length (trim (value p ''pickupLocation'')) < 3
        then ''Pickup location must be at least 3 characters''
      else [])"
  by (simp add: bookingValidation_def Let_def booking_step_errorText clearErrors_def)

lemma booking_error_dropoffLocation:
  "errorText (snd (bookingValidation rt p)) ''dropoffLocation'' =
     (if value p ''pickupLocation'' \<noteq> []
         \<and> value p ''dropoffLocation'' \<noteq> []
         \<and> toLowerCase (value p ''pickupLocation'') = toLowerCase (value p ''dropoffLocation'')
        then ''Pickup and drop-off locations must be different''
      else if value p ''dropoffLocation'' = [] then ''Drop-off location is required''
      else if length (trim (value p ''dropoffLocation'')) < 3
        then ''Drop-off location must be at least 3 characters''
      else [])"
  by (simp add: bookingValidation_def Let_def booking_step_errorText clearErrors_def)

lemma booking_error_date:
  "errorText (snd (bookingValidation rt p)) ''date'' =
     (if value p ''date'' = [] then ''Date is required''
      else if \<not> isValidDate rt (value p ''date'')
        then ''Please select a date in the future''
      else [])"
  by (simp add: bookingValidation_def Let_def booking_step_errorText clearErrors_def)

lemma booking_error_time:
  "errorText (snd (bookingValidation rt p)) ''time'' =
     (if value p ''time'' = [] then ''Time is required''
      else [])"
  by (simp add: bookingValidation_def Let_def booking_step_errorText clearErrors_def)

lemma booking_error_passengers:
  "errorText (snd (bookingValidation rt p)) ''passengers'' =
     (if value p ''passengers'' = []
         \<or> less_number (StringToNumber (value p ''passengers'')) (Finite 1)
         \<or> less_number (Finite 8) (StringToNumber (value p ''passengers''))
        then ''Please select between 1 and 8 passengers''
      else [])"
  by (simp add: bookingValidation_def Let_def booking_step_errorText clearErrors_def)

lemma booking_error_paymentMethod:
  "errorText (snd (bookingValidation rt p)) ''paymentMethod'' =
     (if value p ''paymentMethod'' = [] then ''Please select a payment method''
      else [])"
  by (simp add: bookingValidation_def Let_def booking_step_errorText clearErrors_def)

lemma booking_error_terms:
  "errorText (snd (bookingValidation rt p)) ''terms'' =
     (if \<not> checked p ''terms'' then ''You must agree to the terms and conditions''
      else [])"
  by (simp add: bookingValidation_def Let_def booking_step_errorText clearErrors_def)

lemma booking_error_privacy:
  "errorText (snd (bookingValidation rt p)) ''privacy'' =
     (if \<not> checked p ''privacy'' then ''You must agree to the privacy policy''
      else [])"
  by (simp add: bookingValidation_def Let_def booking_step_errorText clearErrors_def)

lemma booking_frame:
  "snd (bookingValidation rt p) = p\<lparr>errorText := errorText (snd (bookingValidation rt p))\<rparr>"
proof -
  have 0: "snd (True, clearErrors p) = p\<lparr>errorText := errorText (snd (True, clearErrors p))\<rparr>"
    by (simp add: clearErrors_def)
  note s = frame_trans [OF _ validateServiceType_frame]
    frame_trans [OF _ validateFullName_frame]
    frame_trans [OF _ validateEmail_frame]
    frame_trans [OF _ validatePhone_frame]
    frame_trans [OF _ validatePickupLocation_frame]
    frame_trans [OF _ validateDropoffLocation_frame]
    frame_trans [OF _ validateDifferent_frame]
    frame_trans [OF _ validateDate_frame]
    frame_trans [OF _ validateTime_frame]
    frame_trans [OF _ validatePassengers_frame]
    frame_trans [OF _ validatePaymentMethod_frame]
    frame_trans [OF _ validateTerms_frame]
    frame_trans [OF _ validatePrivacy_frame]
  show ?thesis
    unfolding bookingValidation_def Let_def by (intro s 0)
qed

lemma booking_sound:
  "fst (bookingValidation rt p) = (\<forall>k. errorText (snd (bookingValidation rt p)) k = [])"
proof -
  have 0: "fst (True, clearErrors p) = (\<forall>k. errorText (snd (True, clearErrors p)) k = [])"
    by (simp add: clearErrors_def)
  show ?thesis
    unfolding bookingValidation_def Let_def
    by (intro validateServiceType_sound
          validateFullName_sound
          validateEmail_sound
          validatePhone_sound
          validatePickupLocation_sound
          validateDropoffLocation_sound
          validateDifferent_sound
          validateDate_sound
          validateTime_sound
          validatePassengers_sound
          validatePaymentMethod_sound
          validateTerms_sound
          validatePrivacy_sound 0)
qed

lemma handleBookingSubmit_errorText:
  "errorText (handleBookingSubmit rt p) = errorText (snd (bookingValidation rt p))"
  by (simp add: handleBookingSubmit_def bookingSuccess_def Let_def case_prod_beta)

lemma handleBookingSubmit_failure:
  assumes "errorText (handleBookingSubmit rt p) k \<noteq> []"
  shows "handleBookingSubmit rt p = p\<lparr>errorText := errorText (handleBookingSubmit rt p)\<rparr>"
proof -
  from assms have "\<not> fst (bookingValidation rt p)"
    unfolding handleBookingSubmit_errorText booking_sound by blast
  then have "handleBookingSubmit rt p = snd (bookingValidation rt p)"
    by (simp add: handleBookingSubmit_def case_prod_beta)
  then show ?thesis using booking_frame [of rt p] by simp
qed

lemma handleBookingSubmit_success:
  assumes "\<forall>k. errorText (handleBookingSubmit rt p) k = []"
  shows "handleBookingSubmit rt p = bookingSuccess rt (clearErrors p)"
proof -
  from assms have v: "fst (bookingValidation rt p)"
    unfolding handleBookingSubmit_errorText booking_sound by blast
  from assms have "errorText (snd (bookingValidation rt p)) = (\<lambda>_. [])"
    unfolding handleBookingSubmit_errorText by auto
  then have "snd (bookingValidation rt p) = clearErrors p"
    using booking_frame [of rt p] by (simp add: clearErrors_def)
  with v show ?thesis
    by (simp add: handleBookingSubmit_def case_prod_beta)
qed

subsection \<open>Contact\<close>

lemmas contact_step_errorText =
  validateContactName_errorText
  validateEmail_errorText
  validateContactPhone_errorText
  validateSubject_errorText
  validateMessage_errorText

lemma contact_error_name:
  "errorText (snd (contactValidation p)) ''name'' =
     (if value p ''name'' = [] then ''Name is required''
      else if \<not> isValidName (value p ''name'') then ''Please enter a valid name''
      else [])"
  by (simp add: contactValidation_def Let_def contact_step_errorText clearErrors_def)

lemma contact_error_email:
  "errorText (snd (contactValidation p)) ''email'' =
     (if value p ''email'' = [] then ''Email is required''
      else if \<not> isValidEmail (value p ''email'')
        then ''Please enter a valid email address''
      else [])"
  by (simp add: contactValidation_def Let_def contact_step_errorText clearErrors_def)

lemma contact_error_phone:
  "errorText (snd (contactValidation p)) ''phone'' =
     (if value p ''phone'' = [] then ''Phone number is required''
      else if \<not> isValidPhone (value p ''phone'') then ''Please enter a valid phone number''
      else [])"
  by (simp add: contactValidation_def Let_def contact_step_errorText clearErrors_def)

lemma contact_error_subject:
  "errorText (snd (contactValidation p)) ''subject'' =
     (if value p ''subject'' = [] then ''Please select a subject''
      else [])"
  by (simp add: contactValidation_def Let_def contact_step_errorText clearErrors_def)

lemma contact_error_message:
  "errorText (snd (contactValidation p)) ''message'' =
     (if value p ''message'' = [] then ''Message is required''
      else if length (trim (value p ''message'')) < 10
        then ''Message must be at least 10 characters''
      else [])"
  by (simp add: contactValidation_def Let_def contact_step_errorText clearErrors_def)

lemma contact_frame:
  "snd (contactValidation p) = p\<lparr>errorText := errorText (snd (contactValidation p))\<rparr>"
proof -
  have 0: "snd (True, clearErrors p) = p\<lparr>errorText := errorText (snd (True, clearErrors p))\<rparr>"
    by (simp add: clearErrors_def)
  note s = frame_trans [OF _ validateContactName_frame]
    frame_trans [OF _ validateEmail_frame]
    frame_trans [OF _ validateContactPhone_frame]
    frame_trans [OF _ validateSubject_frame]
    frame_trans [OF _ validateMessage_frame]
  show ?thesis
    unfolding contactValidation_def Let_def by (intro s 0)
qed

lemma contact_sound:
  "fst (contactValidation p) = (\<forall>k. errorText (snd (contactValidation p)) k = [])"
proof -
  have 0: "fst (True, clearErrors p) = (\<forall>k. errorText (snd (True, clearErrors p)) k = [])"
    by (simp add: clearErrors_def)
  show ?thesis
    unfolding contactValidation_def Let_def
    by (intro validateContactName_sound
          validateEmail_sound
          validateContactPhone_sound
          validateSubject_sound
          validateMessage_sound 0)
qed

lemma handleContactSubmit_errorText:
  "errorText (handleContactSubmit p) = errorText (snd (contactValidation p))"
  by (simp add: handleContactSubmit_def contactSuccess_def Let_def case_prod_beta)

lemma handleContactSubmit_failure:
  assumes "errorText (handleContactSubmit p) k \<noteq> []"
  shows "handleContactSubmit p = p\<lparr>errorText := errorText (handleContactSubmit p)\<rparr>"
proof -
  from assms have "\<not> fst (contactValidation p)"
    unfolding handleContactSubmit_errorText contact_sound by blast
  then have "handleContactSubmit p = snd (contactValidation p)"
    by (simp add: handleContactSubmit_def case_prod_beta)
  then show ?thesis using contact_frame [of p] by simp
qed

lemma handleContactSubmit_success:
  assumes "\<forall>k. errorText (handleContactSubmit p) k = []"
  shows "handleContactSubmit p = contactSuccess (clearErrors p)"
proof -
  from assms have v: "fst (contactValidation p)"
    unfolding handleContactSubmit_errorText contact_sound by blast
  from assms have "errorText (snd (contactValidation p)) = (\<lambda>_. [])"
    unfolding handleContactSubmit_errorText by auto
  then have "snd (contactValidation p) = clearErrors p"
    using contact_frame [of p] by (simp add: clearErrors_def)
  with v show ?thesis
    by (simp add: handleContactSubmit_def case_prod_beta)
qed

section \<open>Rounding keeps the integers on their side of 1 and of 8\<close>

lemma up_range: "1 \<le> a \<Longrightarrow> 2 ^ floorLog2_up a \<le> a \<and> a < 2 ^ Suc (floorLog2_up a)"
proof (induction a rule: floorLog2_up.induct)
  case (1 a)
  show ?case
  proof (cases "a < 2")
    case True
    with 1(2) show ?thesis by (subst (1 2) floorLog2_up.simps) simp
  next
    case False
    then have "1 \<le> a / 2" by simp
    with 1(1) False have "2 ^ floorLog2_up (a / 2) \<le> a / 2 \<and> a / 2 < 2 ^ Suc (floorLog2_up (a / 2))"
      by simp
    with False show ?thesis by (subst (1 2) floorLog2_up.simps) simp
  qed
qed

lemma down_range:
  "0 < a \<Longrightarrow> a < 1 \<Longrightarrow> 1 \<le> a * 2 ^ floorLog2_down a \<and> a * 2 ^ floorLog2_down a < 2"
proof (induction a rule: floorLog2_down.induct)
  case (1 a)
  show ?case
  proof (cases "1 \<le> a * 2")
    case True
    then have d: "floorLog2_down (a * 2) = 0" by (subst floorLog2_down.simps) simp
    from 1(2,3) have "floorLog2_down a = Suc (floorLog2_down (a * 2))"
      by (subst floorLog2_down.simps) simp
    with d True 1(3) show ?thesis by simp
  next
    case False
    with 1 have "1 \<le> a * 2 * 2 ^ floorLog2_down (a * 2) \<and> a * 2 * 2 ^ floorLog2_down (a * 2) < 2"
      by simp
    moreover from 1(2,3) have "floorLog2_down a = Suc (floorLog2_down (a * 2))"
      by (subst floorLog2_down.simps) simp
    ultimately show ?thesis by (simp add: mult.assoc)
  qed
qed

lemma floorLog2_range:
  assumes "0 < a"
  shows "2 powi floorLog2 a \<le> a \<and> a < 2 powi (floorLog2 a + 1)"
proof (cases "1 \<le> a")
  case True
  from up_range [OF True] have "2 ^ floorLog2_up a \<le> a" "a < 2 ^ Suc (floorLog2_up a)" by simp_all
  moreover have "int (floorLog2_up a) + 1 = int (Suc (floorLog2_up a))" by simp
  ultimately show ?thesis using True
    unfolding floorLog2_def by (simp only: if_True power_int_of_nat) 
next
  case False
  then have a1: "a < 1" by simp
  let ?k = "floorLog2_down a"
  from down_range [OF assms a1] have r: "1 \<le> a * 2 ^ ?k" "a * 2 ^ ?k < 2" by simp_all
  have k: "0 < ?k" using assms a1 by (subst floorLog2_down.simps) simp
  have p: "(2::rat) powi (- int ?k) = 1 / 2 ^ ?k"
    by (simp add: power_int_def inverse_eq_divide power_one_over)
  have q: "(2::rat) powi (- int ?k + 1) = 2 / 2 ^ ?k"
  proof -
    have "(2::rat) powi (- int ?k + 1) = 2 powi (- int ?k) * 2 powi 1"
      by (rule power_int_add) simp
    then show ?thesis by (simp add: p)
  qed
  have "1 / 2 ^ ?k \<le> a" using r(1) by (simp add: pos_divide_le_eq)
  moreover have "a < 2 / 2 ^ ?k" using r(2) by (simp add: pos_less_divide_eq)
  ultimately show ?thesis using False unfolding floorLog2_def by (simp only: if_False p q)
qed


lemma roundHalfEven_ge: "of_int k \<le> m \<Longrightarrow> k \<le> roundHalfEven m"
proof -
  assume "of_int k \<le> m"
  then have "k \<le> \<lfloor>m\<rfloor>" by (simp add: le_floor_iff)
  then show ?thesis by (simp add: roundHalfEven_def Let_def)
qed

lemma roundHalfEven_le: "m \<le> of_int k \<Longrightarrow> roundHalfEven m \<le> k"
proof -
  assume h: "m \<le> of_int k"
  then have f: "\<lfloor>m\<rfloor> \<le> k" by (simp add: floor_le_iff) 
  show ?thesis
  proof (cases "m - of_int \<lfloor>m\<rfloor> < 1 / 2")
    case True
    with f show ?thesis by (simp add: roundHalfEven_def Let_def)
  next
    case False
    then have "of_int \<lfloor>m\<rfloor> < m" by simp
    with h have "of_int \<lfloor>m\<rfloor> < (of_int k :: rat)" by simp
    then have "\<lfloor>m\<rfloor> + 1 \<le> k" by simp
    then show ?thesis using f by (simp add: roundHalfEven_def Let_def)
  qed
qed

lemma roundMagnitude_ge:
  assumes "of_int k * 2 powi (max (floorLog2 a) (- 1022) - 52) \<le> a"
  shows "of_int k * 2 powi (max (floorLog2 a) (- 1022) - 52) \<le> roundMagnitude a"
proof -
  let ?u = "(2::rat) powi (max (floorLog2 a) (- 1022) - 52)"
  have u: "0 < ?u" by simp
  from assms u have "of_int k \<le> a / ?u" by (simp add: pos_le_divide_eq)
  then have "k \<le> roundHalfEven (a / ?u)" by (rule roundHalfEven_ge)
  then have "(of_int k :: rat) \<le> of_int (roundHalfEven (a / ?u))" by simp
  with u have "of_int k * ?u \<le> of_int (roundHalfEven (a / ?u)) * ?u"
    by (simp only: mult_le_cancel_right_pos)
  then show ?thesis by (simp add: roundMagnitude_def Let_def)
qed

lemma roundMagnitude_le:
  assumes "a \<le> of_int k * 2 powi (max (floorLog2 a) (- 1022) - 52)"
  shows "roundMagnitude a \<le> of_int k * 2 powi (max (floorLog2 a) (- 1022) - 52)"
proof -
  let ?u = "(2::rat) powi (max (floorLog2 a) (- 1022) - 52)"
  have u: "0 < ?u" by simp
  from assms u have "a / ?u \<le> of_int k" by (simp add: pos_divide_le_eq)
  then have "roundHalfEven (a / ?u) \<le> k" by (rule roundHalfEven_le)
  then have "(of_int (roundHalfEven (a / ?u)) :: rat) \<le> of_int k" by simp
  with u have "of_int (roundHalfEven (a / ?u)) * ?u \<le> of_int k * ?u"
    by (simp only: mult_le_cancel_right_pos)
  then show ?thesis by (simp add: roundMagnitude_def Let_def)
qed

lemma roundMagnitude_nonneg: "0 < a \<Longrightarrow> 0 \<le> roundMagnitude a"
  using roundMagnitude_ge [of 0 a] by simp

lemma pow2_split: "(2::rat) powi i * 2 powi j = 2 powi (i + j)"
  by (rule power_int_add [symmetric]) simp

lemma floorLog2_nonneg: "1 \<le> a \<Longrightarrow> 0 \<le> floorLog2 a"
  by (simp add: floorLog2_def)

lemma roundMagnitude_ge_pow2:
  assumes "1 \<le> a"
  shows "2 powi floorLog2 a \<le> roundMagnitude a"
proof -
  have e: "0 \<le> floorLog2 a" using assms by (rule floorLog2_nonneg)
  then have m: "max (floorLog2 a) (- 1022) = floorLog2 a" by simp
  have "(of_int (2 ^ 52) :: rat) * 2 powi (floorLog2 a - 52) = 2 powi 52 * 2 powi (floorLog2 a - 52)"
    by simp
  also have "\<dots> = 2 powi floorLog2 a" by (simp only: pow2_split) simp
  finally have k: "(of_int (2 ^ 52) :: rat) * 2 powi (max (floorLog2 a) (- 1022) - 52) = 2 powi floorLog2 a"
    by (simp only: m)
  from assms have "0 < a" by simp
  then have "2 powi floorLog2 a \<le> a" using floorLog2_range by blast
  with roundMagnitude_ge [of "2 ^ 52" a] k show ?thesis by simp
qed

lemma roundMagnitude_ge_1: "1 \<le> a \<Longrightarrow> 1 \<le> roundMagnitude a"
proof -
  assume a: "1 \<le> a"
  then have "0 \<le> floorLog2 a" by (rule floorLog2_nonneg)
  then have "(2::rat) powi 0 \<le> 2 powi floorLog2 a" by (intro power_int_increasing) simp_all
  with roundMagnitude_ge_pow2 [OF a] show ?thesis by simp
qed

lemma roundMagnitude_ge_9:
  assumes "9 \<le> a"
  shows "9 \<le> roundMagnitude a"
proof -
  from assms have a0: "0 < a" and a1: "1 \<le> a" by simp_all
  from floorLog2_range [OF a0] have up: "a < 2 powi (floorLog2 a + 1)" by blast
  have e3: "3 \<le> floorLog2 a"
  proof (rule ccontr)
    assume "\<not> 3 \<le> floorLog2 a"
    then have "floorLog2 a + 1 \<le> 3" by simp
    then have "(2::rat) powi (floorLog2 a + 1) \<le> 2 powi 3" by (intro power_int_increasing) simp_all
    with up assms show False by simp
  qed
  show ?thesis
  proof (cases "floorLog2 a = 3")
    case True
    then have m: "max (floorLog2 a) (- 1022) - 52 = - 49" by simp
    have "(of_int (9 * 2 ^ 49) :: rat) * 2 powi (- 49) = 9 * (2 powi 49 * 2 powi (- 49))"
      by simp
    also have "\<dots> = 9" by (simp only: pow2_split) simp
    finally have k: "(of_int (9 * 2 ^ 49) :: rat) * 2 powi (- 49) = 9" .
    from roundMagnitude_ge [of "9 * 2 ^ 49" a] assms show ?thesis
      unfolding m k by simp
  next
    case False
    with e3 have "4 \<le> floorLog2 a" by simp
    then have "(2::rat) powi 4 \<le> 2 powi floorLog2 a" by (intro power_int_increasing) simp_all
    with roundMagnitude_ge_pow2 [OF a1] show ?thesis by simp
  qed
qed

lemma roundMagnitude_le_8:
  assumes "0 < a" "a \<le> 8"
  shows "roundMagnitude a \<le> 8"
proof -
  from floorLog2_range [OF assms(1)] have lo: "2 powi floorLog2 a \<le> a" by blast
  have e3: "floorLog2 a \<le> 3"
  proof (rule ccontr)
    assume "\<not> floorLog2 a \<le> 3"
    then have "4 \<le> floorLog2 a" by simp
    then have "(2::rat) powi 4 \<le> 2 powi floorLog2 a" by (intro power_int_increasing) simp_all
    with lo assms(2) show False by simp
  qed
  let ?e = "max (floorLog2 a) (- 1022)"
  have r: "- 1022 \<le> ?e" "?e \<le> 3" using e3 by simp_all
  have "(of_int (2 ^ nat (55 - ?e)) :: rat) = 2 powi (55 - ?e)"
    using r by (simp add: power_int_def)
  then have "(of_int (2 ^ nat (55 - ?e)) :: rat) * 2 powi (?e - 52) = 2 powi (55 - ?e) * 2 powi (?e - 52)"
    by simp
  also have "\<dots> = 2 powi 3" by (simp only: pow2_split) simp
  finally have k: "(of_int (2 ^ nat (55 - ?e)) :: rat) * 2 powi (?e - 52) = 8" by simp
  from roundMagnitude_le [of a "2 ^ nat (55 - ?e)"] assms(2) show ?thesis
    unfolding k by simp
qed

lemma roundBinary64_below_1: "x < 1 \<and> x \<in> \<int> \<Longrightarrow> less_number (roundBinary64 x) (Finite 1)"
proof -
  assume "x < 1 \<and> x \<in> \<int>"
  then have x: "x \<le> 0" by (auto elim!: Ints_cases)
  show ?thesis
  proof (cases "x = 0")
    case True
    then show ?thesis by (simp add: roundBinary64_def)
  next
    case False
    with x have n: "x < 0" "0 < \<bar>x\<bar>" by simp_all
    from roundMagnitude_nonneg [OF n(2)] n(1) show ?thesis
      by (simp add: roundBinary64_def Let_def)
  qed
qed

lemma roundBinary64_nonpos: "x \<le> 0 \<Longrightarrow> \<not> less_number (Finite 8) (roundBinary64 x)"
proof (cases "x = 0")
  case True
  then show ?thesis by (simp add: roundBinary64_def)
next
  case False
  assume "x \<le> 0"
  with False have n: "x < 0" "0 < \<bar>x\<bar>" by simp_all
  from roundMagnitude_nonneg [OF n(2)] n(1) show ?thesis
    by (simp add: roundBinary64_def Let_def)
qed

lemma roundBinary64_ge_1: "1 \<le> x \<Longrightarrow> \<not> less_number (roundBinary64 x) (Finite 1)"
  using roundMagnitude_ge_1 [of x] by (simp add: roundBinary64_def Let_def)

lemma roundBinary64_ge_9: "9 \<le> x \<Longrightarrow> less_number (Finite 8) (roundBinary64 x)"
  using roundMagnitude_ge_9 [of x] by (simp add: roundBinary64_def Let_def)

lemma roundBinary64_le_8: "0 < x \<Longrightarrow> x \<le> 8 \<Longrightarrow> \<not> less_number (Finite 8) (roundBinary64 x)"
  using roundMagnitude_le_8 [of x] by (simp add: roundBinary64_def Let_def)

lemma roundBinary64_int:
  "less_number (roundBinary64 (of_int n)) (Finite 1) \<longleftrightarrow> n < 1"
  "less_number (Finite 8) (roundBinary64 (of_int n)) \<longleftrightarrow> 8 < n"
proof -
  show "less_number (roundBinary64 (of_int n)) (Finite 1) \<longleftrightarrow> n < 1"
  proof (cases "n < 1")
    case True
    then have "(of_int n :: rat) < 1 \<and> (of_int n :: rat) \<in> \<int>" by simp
    then show ?thesis using True by (simp only: roundBinary64_below_1)
  next
    case False
    then have "1 \<le> (of_int n :: rat)" by simp
    then show ?thesis using False by (simp only: roundBinary64_ge_1)
  qed
  show "less_number (Finite 8) (roundBinary64 (of_int n)) \<longleftrightarrow> 8 < n"
  proof (cases "8 < n")
    case True
    then have "9 \<le> (of_int n :: rat)" using of_int_le_iff [of 9 n, where ?'a = rat] by simp
    then show ?thesis using True by (simp only: roundBinary64_ge_9)
  next
    case False
    show ?thesis
    proof (cases "n \<le> 0")
      case True
      then have "(of_int n :: rat) \<le> 0" by simp
      then show ?thesis using False by (simp only: roundBinary64_nonpos)
    next
      case pos: False
      with False have "0 < (of_int n :: rat)" "(of_int n :: rat) \<le> 8"
        using of_int_le_iff [of n 8, where ?'a = rat] by simp_all
      then show ?thesis using False by (simp only: roundBinary64_le_8)
    qed
  qed
qed

lemma negate_roundBinary64: "negate (roundBinary64 x) = roundBinary64 (- x)"
proof (cases "x = 0")
  case True
  then show ?thesis by (simp add: roundBinary64_def)
next
  case False
  then consider "x < 0" | "0 < x" by fastforce
  then show ?thesis
    by cases (simp_all add: roundBinary64_def Let_def)
qed

section \<open>The text of an integer converts to its number value\<close>

lemma digit_char:
  assumes "k < 10"
  shows "isDecimalDigit (char_of (48 + k))" "digitValue (char_of (48 + k)) = k"
    "\<not> isWhiteSpace (char_of (48 + k))"
    "char_of (48 + k) \<notin> set ''+-.eExXoObBI''"
proof -
  have c: "code (char_of (48 + k)) = 48 + k" using assms by (simp add: code_char_of)
  show "isDecimalDigit (char_of (48 + k))" using assms by (simp add: isDecimalDigit_def c)
  then show "digitValue (char_of (48 + k)) = k" by (simp add: digitValue_def c)
  show "\<not> isWhiteSpace (char_of (48 + k))" using assms by (simp add: isWhiteSpace_def c)
  have "code d \<notin> {48..57}" if "d \<in> set ''+-.eExXoObBI''" for d
    using that by (auto simp: code_def)
  then show "char_of (48 + k) \<notin> set ''+-.eExXoObBI''" using c assms by fastforce
qed

lemma digits_Nil: "digits n \<noteq> []"
  by (subst digits.simps) simp

lemma digits_all: "list_all isDecimalDigit (digits n)"
proof (induction n rule: digits.induct)
  case (1 n)
  show ?case
  proof (cases "n < 10")
    case True
    then show ?thesis by (subst digits.simps) (simp add: digit_char)
  next
    case False
    with 1 have "list_all isDecimalDigit (digits (n div 10))" by simp
    moreover have "isDecimalDigit (char_of (48 + n mod 10))" by (simp add: digit_char)
    ultimately show ?thesis using False by (subst digits.simps) simp
  qed
qed

lemma radixValue_snoc: "radixValue b (ds @ [c]) = b * radixValue b ds + int (digitValue c)"
  by (simp add: radixValue_def)

lemma radixValue_digits: "radixValue 10 (digits n) = int n"
proof (induction n rule: digits.induct)
  case (1 n)
  show ?case
  proof (cases "n < 10")
    case True
    then show ?thesis by (subst digits.simps) (simp add: radixValue_def digit_char)
  next
    case False
    with 1 have "radixValue 10 (digits (n div 10)) = int (n div 10)" by simp
    moreover have "10 * int (n div 10) + int (n mod 10) = int n"
      by (simp add: zdiv_int zmod_int)
    ultimately show ?thesis using False
      by (subst digits.simps) (simp add: radixValue_snoc digit_char)
  qed
qed

lemma trim_id:
  assumes "s \<noteq> []" "\<not> isWhiteSpace (hd s)" "\<not> isWhiteSpace (last s)"
  shows "trim s = s"
proof -
  have 1: "dropWhile isWhiteSpace s = s" using assms by (cases s) simp_all
  have "rev s \<noteq> []" "\<not> isWhiteSpace (hd (rev s))" using assms by (simp_all add: hd_rev)
  then have "dropWhile isWhiteSpace (rev s) = rev s" by (cases "rev s") simp_all
  with 1 show ?thesis by (simp add: trim_def)
qed

lemma digits_hd: "isDecimalDigit (hd (digits n))"
  using digits_all [of n] digits_Nil [of n] by (cases "digits n") simp_all

lemma digits_last: "isDecimalDigit (last (digits n))"
  using digits_all [of n] digits_Nil [of n] by (simp add: list_all_iff)

lemma digit_not_space: "isDecimalDigit c \<Longrightarrow> \<not> isWhiteSpace c"
  by (auto simp: isDecimalDigit_def isWhiteSpace_def)

lemma digit_not_special: "isDecimalDigit c \<Longrightarrow> c \<notin> set ''+-.eExXoObBI''"
  by (auto simp: isDecimalDigit_def code_def)

lemma StrUnsignedDecimalLiteral_digits:
  "StrUnsignedDecimalLiteral (digits n) = roundBinary64 (of_nat n)"
proof -
  have ne: "digits n \<noteq> []" by (rule digits_Nil)
  have "hd (digits n) \<noteq> CHR ''I''" using digit_not_special [OF digits_hd [of n]] by auto
  then have inf: "digits n \<noteq> ''Infinity''" by auto
  have tw: "takeWhile isDecimalDigit (digits n) = digits n"
    using digits_all [of n] by (simp add: list_all_iff)
  have dw: "dropWhile isDecimalDigit (digits n) = []"
    using digits_all [of n] by (simp add: list_all_iff)
  show ?thesis
    by (simp add: StrUnsignedDecimalLiteral_def inf tw dw ne exponentPart_def pow10_def
        radixValue_digits Let_def radixValue_def [of 10 "[]"])
qed

lemma NonDecimal_digits: "NonDecimalIntegerLiteral (digits n) = None"
proof (cases "digits n")
  case Nil
  then show ?thesis by (simp add: NonDecimalIntegerLiteral_def)
next
  case (Cons z r)
  show ?thesis
  proof (cases r)
    case Nil
    with Cons show ?thesis by (simp add: NonDecimalIntegerLiteral_def)
  next
    case (Cons x ds)
    with \<open>digits n = z # r\<close> digits_all [of n] have "isDecimalDigit x" by simp
    then have "x \<notin> set ''+-.eExXoObBI''" by (rule digit_not_special)
    then show ?thesis using Cons \<open>digits n = z # r\<close> by (simp add: NonDecimalIntegerLiteral_def)
  qed
qed

lemma StringToNumber_NumberToString:
  "StringToNumber (NumberToString n) = roundBinary64 (of_int n)"
proof (cases "n < 0")
  case False
  have t: "trim (digits (nat n)) = digits (nat n)"
    by (intro trim_id digits_Nil digit_not_space digits_hd digits_last)
  have "hd (digits (nat n)) \<notin> set ''+-.eExXoObBI''" by (intro digit_not_special digits_hd)
  then have h: "hd (digits (nat n)) \<noteq> CHR ''+''" "hd (digits (nat n)) \<noteq> CHR ''-''" by auto
  show ?thesis using False
    by (simp add: NumberToString_def StringToNumber_def t digits_Nil NonDecimal_digits h
        StrUnsignedDecimalLiteral_digits)
next
  case True
  let ?s = "CHR ''-'' # digits (nat (- n))"
  have ws: "\<not> isWhiteSpace CHR ''-''" by (simp add: isWhiteSpace_def code_def)
  have t: "trim ?s = ?s"
    by (rule trim_id) (simp_all add: ws digits_Nil digit_not_space digits_last)
  have nd: "NonDecimalIntegerLiteral ?s = None"
    by (simp add: NonDecimalIntegerLiteral_def split: list.split)
  show ?thesis using True
    by (simp add: NumberToString_def StringToNumber_def t nd StrUnsignedDecimalLiteral_digits
        negate_roundBinary64)
qed

lemma passengers_integer:
  "(NumberToString n = [] \<or> less_number (StringToNumber (NumberToString n)) (Finite 1)
     \<or> less_number (Finite 8) (StringToNumber (NumberToString n))) \<longleftrightarrow> \<not> (1 \<le> n \<and> n \<le> 8)"
proof -
  have "NumberToString n \<noteq> []" by (simp add: NumberToString_def digits_Nil)
  then show ?thesis
    by (auto simp: StringToNumber_NumberToString roundBinary64_int)
qed

text \<open>
  Decimal texts next to 8 and to 1 that are not binary64 values convert to 8 and to 1.
\<close>

lemma StringToNumber_rounds:
  "StringToNumber ''8.0000000000000001'' = Finite 8"
  "StringToNumber ''0.99999999999999999'' = Finite 1"
  "StringToNumber ''0.1'' = Finite (3602879701896397 / 36028797018963968)"
  by code_simp+

section \<open>The date validator\<close>

text \<open>
  For a date-only text, which is read as midnight UTC of its day: on a host at or east of UTC
  the validator accepts exactly the days from the local today on; on a host west of UTC it
  rejects the local today.
\<close>

lemma isValidDate_date_only:
  assumes "dateParse rt s = Some (d * msPerDay)" "0 \<le> localTZA rt" "localTZA rt < msPerDay"
  shows "isValidDate rt s \<longleftrightarrow> Day (LocalTime rt (currentTime rt)) \<le> d"
proof -
  let ?D = "Day (LocalTime rt (currentTime rt))"
  have v: "isValidDate rt s \<longleftrightarrow> ?D * 86400000 - localTZA rt \<le> d * 86400000"
    using assms(1) by (simp add: isValidDate_def setHours0_def UTC_def msPerDay_def)
  show ?thesis
  proof (cases "?D \<le> d")
    case True
    then have "?D * 86400000 \<le> d * 86400000" by simp
    with assms(2) True show ?thesis unfolding v by simp
  next
    case False
    then have "d + 1 \<le> ?D" by simp
    then have "(d + 1) * 86400000 \<le> ?D * 86400000" by (simp only: mult_right_mono)
    with assms(3) False show ?thesis unfolding v msPerDay_def by simp
  qed
qed

lemma isValidDate_today_west:
  assumes "dateParse rt s = Some (Day (LocalTime rt (currentTime rt)) * msPerDay)"
    and "localTZA rt < 0"
  shows "\<not> isValidDate rt s"
  using assms by (simp add: isValidDate_def setHours0_def UTC_def)

text \<open>
  Claim C2 says that today's date is accepted. On a host five hours west of UTC, at noon of
  2024-03-07 local time, the date input delivers \<open>2024-03-07\<close> for today; this text is
  read as midnight UTC, which lies five hours before the local midnight that it is compared
  with, and the validator rejects it.
\<close>

theorem isValidDate_rejects_today_west_of_UTC:
  "Day (LocalTime newYorkNoon (currentTime newYorkNoon)) = MakeDay 2024 3 7
   \<and> dateParse newYorkNoon ''2024-03-07'' = Some (MakeDay 2024 3 7 * msPerDay)
   \<and> \<not> isValidDate newYorkNoon ''2024-03-07''"
  by code_simp

text \<open>
  Claim C9. For every text that the host's parser does not read as a date, the validator
  returns false: the time value of the invalid date is NaN, and the comparison with the
  local midnight is false. \<open>isValidDate\<close> is a total function, so nothing is raised on
  any text.
\<close>

theorem isValidDate_invalid_date:
  "dateParse rt s = None \<Longrightarrow> \<not> isValidDate rt s"
  by (simp add: isValidDate_def)

theorem isValidDate_invalid_date_witness:
  "dateParse utcNoon ''next week'' = None \<and> \<not> isValidDate utcNoon ''next week''"
proof -
  have h: "dateParse utcNoon ''next week'' = None" by code_simp
  from h isValidDate_invalid_date [OF h] show ?thesis by (intro conjI)
qed

section \<open>The fare estimate\<close>

lemma baseFares_positive: "map_of baseFares service = Some b \<Longrightarrow> 0 < b"
  by (auto simp: baseFares_def split: if_splits)

text \<open>
  Claim C6. For a key that the fare table does not have, or that it maps to zero, the price
  panel is hidden and nothing else changes. For a key that it maps to a base price other
  than zero, the panel shows the base price and, as the total, the base price plus the
  surcharge 10. The key \<open>economy\<close> gives base 10 and total 20; an unknown key gives no
  estimate.
\<close>

theorem updateEstimatedFare_cases:
  "(map_of baseFares service = None \<or> map_of baseFares service = Some 0 \<longrightarrow>
      updateEstimatedFare service p = p\<lparr>display := (display p)(''priceEstimate'' := ''none'')\<rparr>)
   \<and> (map_of baseFares service = Some b \<and> b \<noteq> 0 \<longrightarrow>
      updateEstimatedFare service p =
        p\<lparr>textContent := (textContent p)
             (''baseFare'' := ''$'' @ NumberToString b,
              ''estimatedTotal'' := ''$'' @ NumberToString (b + 10),
              ''summaryTotal'' := ''$'' @ NumberToString (b + 10)),
          display := (display p)(''priceEstimate'' := ''block'')\<rparr>)
   \<and> map_of baseFares ''economy'' = Some 10
   \<and> textContent (updateEstimatedFare ''economy'' p) ''baseFare'' = ''$10''
   \<and> textContent (updateEstimatedFare ''economy'' p) ''estimatedTotal'' = ''$20''
   \<and> display (updateEstimatedFare ''economy'' p) ''priceEstimate'' = ''block''
   \<and> map_of baseFares ''limousine'' = None
   \<and> display (updateEstimatedFare ''limousine'' p) ''priceEstimate'' = ''none''"
proof -
  have absent: "map_of baseFares service = None \<or> map_of baseFares service = Some 0 \<longrightarrow>
      updateEstimatedFare service p = p\<lparr>display := (display p)(''priceEstimate'' := ''none'')\<rparr>"
    by (auto simp: updateEstimatedFare_def getProperty_def orZero_def greaterZero_def Let_def)
  have present: "map_of baseFares service = Some b \<and> b \<noteq> 0 \<longrightarrow>
      updateEstimatedFare service p =
        p\<lparr>textContent := (textContent p)
             (''baseFare'' := ''$'' @ NumberToString b,
              ''estimatedTotal'' := ''$'' @ NumberToString (b + 10),
              ''summaryTotal'' := ''$'' @ NumberToString (b + 10)),
          display := (display p)(''priceEstimate'' := ''block'')\<rparr>"
    using baseFares_positive [of service b]
    by (auto simp: updateEstimatedFare_def getProperty_def orZero_def greaterZero_def Let_def)
  have e0: "map_of baseFares ''economy'' = Some 10" by (simp add: baseFares_def)
  have n10: "NumberToString 10 = ''10''" and n20: "NumberToString 20 = ''20''" by code_simp+
  have e: "updateEstimatedFare ''economy'' p =
        p\<lparr>textContent := (textContent p)
             (''baseFare'' := ''$10'', ''estimatedTotal'' := ''$20'', ''summaryTotal'' := ''$20''),
          display := (display p)(''priceEstimate'' := ''block'')\<rparr>"
    using e0
    by (simp add: updateEstimatedFare_def getProperty_def orZero_def greaterZero_def Let_def n10 n20)
  have u0: "map_of baseFares ''limousine'' = None" by (simp add: baseFares_def)
  have u: "display (updateEstimatedFare ''limousine'' p) ''priceEstimate'' = ''none''"
    using u0
    by (simp add: updateEstimatedFare_def getProperty_def orZero_def greaterZero_def Let_def
        objectPrototype_def)
  have e1: "textContent (updateEstimatedFare ''economy'' p) ''baseFare'' = ''$10''"
    and e2: "textContent (updateEstimatedFare ''economy'' p) ''estimatedTotal'' = ''$20''"
    and e3: "display (updateEstimatedFare ''economy'' p) ''priceEstimate'' = ''block''"
    unfolding e by simp_all
  from absent present e0 e1 e2 e3 u0 u show ?thesis by (intro conjI)
qed

theorem updateEstimatedFare_cases_witness:
  "map_of baseFares ''premium'' = Some 40
   \<and> textContent (updateEstimatedFare ''premium'' (formPage [] False False)) ''estimatedTotal''
     = ''$50''
   \<and> map_of baseFares ''toString'' = None
   \<and> display (updateEstimatedFare ''toString'' (formPage [] False False)) ''priceEstimate''
     = ''none''"
proof -
  have a: "map_of baseFares ''premium'' = Some 40" by (simp add: baseFares_def)
  have b: "map_of baseFares ''toString'' = None" by (simp add: baseFares_def)
  have n: "NumberToString 50 = ''50''" by code_simp
  from a updateEstimatedFare_cases [of "''premium''" "formPage [] False False" 40]
  have "updateEstimatedFare ''premium'' (formPage [] False False) =
        (formPage [] False False)\<lparr>textContent := (textContent (formPage [] False False))
             (''baseFare'' := ''$'' @ NumberToString 40,
              ''estimatedTotal'' := ''$'' @ NumberToString (40 + 10),
              ''summaryTotal'' := ''$'' @ NumberToString (40 + 10)),
          display := (display (formPage [] False False))(''priceEstimate'' := ''block'')\<rparr>"
    by simp
  then have 1: "textContent (updateEstimatedFare ''premium'' (formPage [] False False)) ''estimatedTotal''
     = ''$50''"
    by (simp add: n)
  from b updateEstimatedFare_cases [of "''toString''" "formPage [] False False" 0]
  have "updateEstimatedFare ''toString'' (formPage [] False False) =
      (formPage [] False False)\<lparr>display := (display (formPage [] False False))(''priceEstimate'' := ''none'')\<rparr>"
    by simp
  then have 2: "display (updateEstimatedFare ''toString'' (formPage [] False False)) ''priceEstimate''
     = ''none''"
    by simp
  from a 1 b 2 show ?thesis by (intro conjI)
qed

section \<open>The two forms\<close>

text \<open>
  Claim C5. After a submission of either form, the error text of every field is decided by
  the check of that field alone, whatever the other fields hold: each failing field has its
  own message and each passing field has none, all in the one pass. If some field has a
  message, the page is otherwise unchanged, so the only effect is that the success
  transition does not happen; if no field has one, the success transition is taken. The
  handlers are total functions of the page: no submission raises.
\<close>

theorem handlers_report_every_failure:
  "errorText (handleBookingSubmit rt p) ''service'' =
      (if value p ''service'' = [] then ''Please select a service type''
       else [])
   \<and> errorText (handleBookingSubmit rt p) ''fullName'' =
      (if value p ''fullName'' = [] then ''Full name is required''
       else if \<not> isValidName (value p ''fullName'')
         then ''Full name must be at least 3 characters and contain only letters''
       else [])
   \<and> errorText (handleBookingSubmit rt p) ''email'' =
      (if value p ''email'' = [] then ''Email is required''
       else if \<not> isValidEmail (value p ''email'')
         then ''Please enter a valid email address''
       else [])
   \<and> errorText (handleBookingSubmit rt p) ''phone'' =
      (if value p ''phone'' = [] then ''Phone number is required''
       else if \<not> isValidPhone (value p ''phone'')
         then ''Please enter a valid phone number (at least 10 digits)''
       else [])
   \<and> errorText (handleBookingSubmit rt p) ''pickupLocation'' =
      (if value p ''pickupLocation'' = [] then ''Pickup location is required''
       else if length (trim (value p ''pickupLocation'')) < 3
         then ''Pickup location must be at least 3 characters''
       else [])
   \<and> errorText (handleBookingSubmit rt p) ''dropoffLocation'' =
      (if value p ''pickupLocation'' \<noteq> []
          \<and> value p ''dropoffLocation'' \<noteq> []
          \<and> toLowerCase (value p ''pickupLocation'') = toLowerCase (value p ''dropoffLocation'')
         then ''Pickup and drop-off locations must be different''
       else if value p ''dropoffLocation'' = [] then ''Drop-off location is required''
       else if length (trim (value p ''dropoffLocation'')) < 3
         then ''Drop-off location must be at least 3 characters''
       else [])
   \<and> errorText (handleBookingSubmit rt p) ''date'' =
      (if value p ''date'' = [] then ''Date is required''
       else if \<not> isValidDate rt (value p ''date'')
         then ''Please select a date in the future''
       else [])
   \<and> errorText (handleBookingSubmit rt p) ''time'' =
      (if value p ''time'' = [] then ''Time is required''
       else [])
   \<and> errorText (handleBookingSubmit rt p) ''passengers'' =
      (if value p ''passengers'' = []
          \<or> less_number (StringToNumber (value p ''passengers'')) (Finite 1)
          \<or> less_number (Finite 8) (StringToNumber (value p ''passengers''))
         then ''Please select between 1 and 8 passengers''
       else [])
   \<and> errorText (handleBookingSubmit rt p) ''paymentMethod'' =
      (if value p ''paymentMethod'' = [] then ''Please select a payment method''
       else [])
   \<and> errorText (handleBookingSubmit rt p) ''terms'' =
      (if \<not> checked p ''terms'' then ''You must agree to the terms and conditions''
       else [])
   \<and> errorText (handleBookingSubmit rt p) ''privacy'' =
      (if \<not> checked p ''privacy'' then ''You must agree to the privacy policy''
       else [])
   \<and> ((\<exists>k. errorText (handleBookingSubmit rt p) k \<noteq> []) \<longrightarrow>
      handleBookingSubmit rt p = p\<lparr>errorText := errorText (handleBookingSubmit rt p)\<rparr>)
   \<and> ((\<forall>k. errorText (handleBookingSubmit rt p) k = []) \<longrightarrow>
      handleBookingSubmit rt p = bookingSuccess rt (clearErrors p))
   \<and> errorText (handleContactSubmit q) ''name'' =
      (if value q ''name'' = [] then ''Name is required''
       else if \<not> isValidName (value q ''name'') then ''Please enter a valid name''
       else [])
   \<and> errorText (handleContactSubmit q) ''email'' =
      (if value q ''email'' = [] then ''Email is required''
       else if \<not> isValidEmail (value q ''email'')
         then ''Please enter a valid email address''
       else [])
   \<and> errorText (handleContactSubmit q) ''phone'' =
      (if value q ''phone'' = [] then ''Phone number is required''
       else if \<not> isValidPhone (value q ''phone'')
         then ''Please enter a valid phone number''
       else [])
   \<and> errorText (handleContactSubmit q) ''subject'' =
      (if value q ''subject'' = [] then ''Please select a subject''
       else [])
   \<and> errorText (handleContactSubmit q) ''message'' =
      (if value q ''message'' = [] then ''Message is required''
       else if length (trim (value q ''message'')) < 10
         then ''Message must be at least 10 characters''
       else [])
   \<and> ((\<exists>k. errorText (handleContactSubmit q) k \<noteq> []) \<longrightarrow>
      handleContactSubmit q = q\<lparr>errorText := errorText (handleContactSubmit q)\<rparr>)
   \<and> ((\<forall>k. errorText (handleContactSubmit q) k = []) \<longrightarrow>
      handleContactSubmit q = contactSuccess (clearErrors q))"
proof -
  note b = booking_error_service booking_error_fullName booking_error_email booking_error_phone booking_error_pickupLocation booking_error_dropoffLocation booking_error_date booking_error_time booking_error_passengers booking_error_paymentMethod booking_error_terms booking_error_privacy
  note c = contact_error_name [of q] contact_error_email [of q] contact_error_phone [of q] contact_error_subject [of q] contact_error_message [of q]
  have bf: "(\<exists>k. errorText (handleBookingSubmit rt p) k \<noteq> []) \<longrightarrow>
      handleBookingSubmit rt p = p\<lparr>errorText := errorText (handleBookingSubmit rt p)\<rparr>"
    using handleBookingSubmit_failure [of rt p] by blast
  have bs: "(\<forall>k. errorText (handleBookingSubmit rt p) k = []) \<longrightarrow>
      handleBookingSubmit rt p = bookingSuccess rt (clearErrors p)"
    using handleBookingSubmit_success [of rt p] by blast
  have cf: "(\<exists>k. errorText (handleContactSubmit q) k \<noteq> []) \<longrightarrow>
      handleContactSubmit q = q\<lparr>errorText := errorText (handleContactSubmit q)\<rparr>"
    using handleContactSubmit_failure [of q] by blast
  have cs: "(\<forall>k. errorText (handleContactSubmit q) k = []) \<longrightarrow>
      handleContactSubmit q = contactSuccess (clearErrors q)"
    using handleContactSubmit_success [of q] by blast
  show ?thesis
    unfolding handleBookingSubmit_errorText handleContactSubmit_errorText
    using bf bs cf cs
    unfolding handleBookingSubmit_errorText handleContactSubmit_errorText
    by (intro conjI b c)
qed

theorem handlers_report_every_failure_witness:
  "errorText (handleBookingSubmit utcNoon (formPage [] False False)) ''service''
     = ''Please select a service type''
   \<and> errorText (handleBookingSubmit utcNoon (formPage [] False False)) ''privacy''
     = ''You must agree to the privacy policy''
   \<and> handleBookingSubmit utcNoon (formPage [] False False)
     = (formPage [] False False)
         \<lparr>errorText := errorText (handleBookingSubmit utcNoon (formPage [] False False))\<rparr>
   \<and> errorText (handleContactSubmit (formPage [] False False)) ''name'' = ''Name is required''
   \<and> errorText (handleContactSubmit (formPage [] False False)) ''message''
     = ''Message is required''
   \<and> handleContactSubmit (formPage [] False False)
     = (formPage [] False False)
         \<lparr>errorText := errorText (handleContactSubmit (formPage [] False False))\<rparr>
   \<and> display (handleBookingSubmit utcNoon (formPage validBooking True True)) ''bookingSuccess'' = ''block''
   \<and> display (handleContactSubmit (formPage validContact False False)) ''contactSuccess'' = ''block''"
proof -
  note t = handlers_report_every_failure [of utcNoon "formPage [] False False" "formPage [] False False"]
  have v: "value (formPage [] False False) k = []" "\<not> checked (formPage [] False False) k" for k
    by (simp_all add: formPage_def)
  from t [THEN conjunct1] have b1: "errorText (handleBookingSubmit utcNoon (formPage [] False False)) ''service''
     = ''Please select a service type''"
    by (simp add: v)
  from t [THEN conjunct2, THEN conjunct2, THEN conjunct2, THEN conjunct2, THEN conjunct2, THEN conjunct2, THEN conjunct2, THEN conjunct2, THEN conjunct2, THEN conjunct2, THEN conjunct2, THEN conjunct1] have b2: "errorText (handleBookingSubmit utcNoon (formPage [] False False)) ''privacy''
     = ''You must agree to the privacy policy''"
    by (simp add: v)
  from t [THEN conjunct2, THEN conjunct2, THEN conjunct2, THEN conjunct2, THEN conjunct2, THEN conjunct2, THEN conjunct2, THEN conjunct2, THEN conjunct2, THEN conjunct2, THEN conjunct2, THEN conjunct2, THEN conjunct2, THEN conjunct2, THEN conjunct1] have c1: "errorText (handleContactSubmit (formPage [] False False)) ''name'' = ''Name is required''"
    by (simp add: v)
  from t [THEN conjunct2, THEN conjunct2, THEN conjunct2, THEN conjunct2, THEN conjunct2, THEN conjunct2, THEN conjunct2, THEN conjunct2, THEN conjunct2, THEN conjunct2, THEN conjunct2, THEN conjunct2, THEN conjunct2, THEN conjunct2, THEN conjunct2, THEN conjunct2, THEN conjunct2, THEN conjunct2, THEN conjunct1] have c2: "errorText (handleContactSubmit (formPage [] False False)) ''message''
     = ''Message is required''"
    by (simp add: v)
  from b1 have "\<exists>k. errorText (handleBookingSubmit utcNoon (formPage [] False False)) k \<noteq> []"
    by (intro exI [of _ "''service''"]) simp
  with t [THEN conjunct2, THEN conjunct2, THEN conjunct2, THEN conjunct2, THEN conjunct2, THEN conjunct2, THEN conjunct2, THEN conjunct2, THEN conjunct2, THEN conjunct2, THEN conjunct2, THEN conjunct2, THEN conjunct1] have b3: "handleBookingSubmit utcNoon (formPage [] False False)
     = (formPage [] False False)
         \<lparr>errorText := errorText (handleBookingSubmit utcNoon (formPage [] False False))\<rparr>"
    by (rule mp)
  from c1 have "\<exists>k. errorText (handleContactSubmit (formPage [] False False)) k \<noteq> []"
    by (intro exI [of _ "''name''"]) simp
  with t [THEN conjunct2, THEN conjunct2, THEN conjunct2, THEN conjunct2, THEN conjunct2, THEN conjunct2, THEN conjunct2, THEN conjunct2, THEN conjunct2, THEN conjunct2, THEN conjunct2, THEN conjunct2, THEN conjunct2, THEN conjunct2, THEN conjunct2, THEN conjunct2, THEN conjunct2, THEN conjunct2, THEN conjunct2, THEN conjunct1] have c3: "handleContactSubmit (formPage [] False False)
     = (formPage [] False False)
         \<lparr>errorText := errorText (handleContactSubmit (formPage [] False False))\<rparr>"
    by (rule mp)
  note u = handlers_report_every_failure
    [of utcNoon "formPage validBooking True True" "formPage validContact False False"]
  have "fst (bookingValidation utcNoon (formPage validBooking True True))" by code_simp
  then have "\<forall>k. errorText (handleBookingSubmit utcNoon (formPage validBooking True True)) k = []"
    by (simp add: handleBookingSubmit_errorText booking_sound [symmetric])
  with u [THEN conjunct2, THEN conjunct2, THEN conjunct2, THEN conjunct2, THEN conjunct2, THEN conjunct2, THEN conjunct2, THEN conjunct2, THEN conjunct2, THEN conjunct2, THEN conjunct2, THEN conjunct2, THEN conjunct2, THEN conjunct1]
  have "handleBookingSubmit utcNoon (formPage validBooking True True)
     = bookingSuccess utcNoon (clearErrors (formPage validBooking True True))"
    by (rule mp)
  then have b4: "display (handleBookingSubmit utcNoon (formPage validBooking True True)) ''bookingSuccess'' = ''block''"
    by (simp add: bookingSuccess_def Let_def)
  have "fst (contactValidation (formPage validContact False False))" by code_simp
  then have "\<forall>k. errorText (handleContactSubmit (formPage validContact False False)) k = []"
    by (simp add: handleContactSubmit_errorText contact_sound [symmetric])
  with u [THEN conjunct2, THEN conjunct2, THEN conjunct2, THEN conjunct2, THEN conjunct2, THEN conjunct2, THEN conjunct2, THEN conjunct2, THEN conjunct2, THEN conjunct2, THEN conjunct2, THEN conjunct2, THEN conjunct2, THEN conjunct2, THEN conjunct2, THEN conjunct2, THEN conjunct2, THEN conjunct2, THEN conjunct2, THEN conjunct2]
  have "handleContactSubmit (formPage validContact False False)
     = contactSuccess (clearErrors (formPage validContact False False))"
    by (rule mp)
  then have c4: "display (handleContactSubmit (formPage validContact False False)) ''contactSuccess'' = ''block''"
    by (simp add: contactSuccess_def)
  from b1 b2 b3 c1 c2 c3 b4 c4 show ?thesis by (intro conjI)
qed

text \<open>
  Claim C1, as amended. Whenever the pickup and the drop-off location are equal when
  compared without regard to case, as entered and without trimming, the drop-off field
  carries an error and the submission fails, whatever the other fields hold.
\<close>

theorem same_location_fails:
  assumes "toLowerCase (value p ''pickupLocation'') = toLowerCase (value p ''dropoffLocation'')"
  shows "errorText (handleBookingSubmit rt p) ''dropoffLocation'' =
           (if value p ''dropoffLocation'' = [] then ''Drop-off location is required''
            else ''Pickup and drop-off locations must be different'')
         \<and> errorText (handleBookingSubmit rt p) ''dropoffLocation'' \<noteq> []
         \<and> handleBookingSubmit rt p = p\<lparr>errorText := errorText (handleBookingSubmit rt p)\<rparr>"
proof -
  from assms have "length (value p ''pickupLocation'') = length (value p ''dropoffLocation'')"
    unfolding toLowerCase_def by (rule map_eq_imp_length_eq)
  then have ne: "value p ''pickupLocation'' = [] \<longleftrightarrow> value p ''dropoffLocation'' = []"
    by auto
  have 1: "errorText (handleBookingSubmit rt p) ''dropoffLocation'' =
           (if value p ''dropoffLocation'' = [] then ''Drop-off location is required''
            else ''Pickup and drop-off locations must be different'')"
    using assms ne by (simp add: handleBookingSubmit_errorText booking_error_dropoffLocation)
  then have 2: "errorText (handleBookingSubmit rt p) ''dropoffLocation'' \<noteq> []"
    by simp
  from 2 have 3: "handleBookingSubmit rt p = p\<lparr>errorText := errorText (handleBookingSubmit rt p)\<rparr>"
    by (rule handleBookingSubmit_failure)
  from 1 2 3 show ?thesis by (intro conjI)
qed

theorem same_location_fails_witness:
  "toLowerCase ''Airport'' = toLowerCase ''AIRPORT''
   \<and> errorText (handleBookingSubmit utcNoon
        (formPage ((''pickupLocation'', ''Airport'') # (''dropoffLocation'', ''AIRPORT'') # validBooking)
           True True)) ''dropoffLocation''
     = ''Pickup and drop-off locations must be different''"
proof -
  let ?p = "formPage ((''pickupLocation'', ''Airport'') # (''dropoffLocation'', ''AIRPORT'') # validBooking)
           True True"
  have v: "value ?p ''pickupLocation'' = ''Airport''" "value ?p ''dropoffLocation'' = ''AIRPORT''"
    by (simp_all add: formPage_def)
  have h: "toLowerCase ''Airport'' = toLowerCase ''AIRPORT''" by code_simp
  then have "toLowerCase (value ?p ''pickupLocation'') = toLowerCase (value ?p ''dropoffLocation'')"
    by (simp only: v)
  from same_location_fails [OF this, of utcNoon]
  have "errorText (handleBookingSubmit utcNoon ?p) ''dropoffLocation''
     = ''Pickup and drop-off locations must be different''"
    by (simp add: v)
  with h show ?thesis by (intro conjI)
qed

text \<open>
  Claim C1 as stated compares the locations after trimming. \<open>Airport\<close> with a space
  at its end and \<open>airport\<close> are equal after trimming and without regard to case, yet
  the drop-off field carries no error and the booking succeeds.
\<close>

theorem same_location_after_trimming_counterexample:
  "spec_same_location ''Airport '' ''airport''
   \<and> errorText (handleBookingSubmit utcNoon
        (formPage ((''pickupLocation'', ''Airport '') # (''dropoffLocation'', ''airport'') # validBooking)
           True True)) ''dropoffLocation'' = []
   \<and> display (handleBookingSubmit utcNoon
        (formPage ((''pickupLocation'', ''Airport '') # (''dropoffLocation'', ''airport'') # validBooking)
           True True)) ''bookingSuccess'' = ''block''"
  by code_simp

text \<open>
  Claim C10. When the pickup or the drop-off location is empty, the drop-off field does not
  carry the message that the two must be different, and each empty location carries its
  message that it is required.
\<close>

theorem no_difference_error_when_empty:
  assumes "value p ''pickupLocation'' = [] \<or> value p ''dropoffLocation'' = []"
  shows "errorText (handleBookingSubmit rt p) ''dropoffLocation''
           \<noteq> ''Pickup and drop-off locations must be different''
         \<and> (value p ''pickupLocation'' = [] \<longrightarrow>
              errorText (handleBookingSubmit rt p) ''pickupLocation'' = ''Pickup location is required'')
         \<and> (value p ''dropoffLocation'' = [] \<longrightarrow>
              errorText (handleBookingSubmit rt p) ''dropoffLocation'' = ''Drop-off location is required'')"
  using assms
  by (auto simp: handleBookingSubmit_errorText booking_error_dropoffLocation
      booking_error_pickupLocation)

theorem no_difference_error_when_empty_witness:
  "value (formPage ((''pickupLocation'', []) # validBooking) True True) ''pickupLocation'' = []
   \<and> errorText (handleBookingSubmit utcNoon
        (formPage ((''pickupLocation'', []) # validBooking) True True)) ''pickupLocation''
     = ''Pickup location is required''
   \<and> errorText (handleBookingSubmit utcNoon
        (formPage ((''pickupLocation'', []) # validBooking) True True)) ''dropoffLocation''
     \<noteq> ''Pickup and drop-off locations must be different''"
proof -
  let ?p = "formPage ((''pickupLocation'', []) # validBooking) True True"
  have h: "value ?p ''pickupLocation'' = []" by (simp add: formPage_def)
  then have "value ?p ''pickupLocation'' = [] \<or> value ?p ''dropoffLocation'' = []" by (rule disjI1)
  from no_difference_error_when_empty [OF this, of utcNoon] h
  show ?thesis by blast
qed

text \<open>
  Claim C3, as amended. When the value of the passenger field is absent or converts to a
  number, the field passes exactly when that number lies in the range from 1 to 8, both
  included: an absent value fails, a number outside the range or an infinity fails, and a
  number inside the range passes whether or not it is an integer, as 2.5 does. For a value
  that is the text of an integer, the field passes exactly when the integer is from 1 to 8.
  Values that do not convert to a number are left aside.
\<close>

theorem passengers_validation:
  "(StringToNumber (value p ''passengers'') = Finite q \<longrightarrow>
      (errorText (handleBookingSubmit rt p) ''passengers'' = [] \<longleftrightarrow> 1 \<le> q \<and> q \<le> 8))
   \<and> (StringToNumber (value p ''passengers'') = PosInf
        \<or> StringToNumber (value p ''passengers'') = NegInf \<longrightarrow>
      errorText (handleBookingSubmit rt p) ''passengers'' = ''Please select between 1 and 8 passengers'')
   \<and> (value p ''passengers'' = NumberToString n \<longrightarrow>
      (errorText (handleBookingSubmit rt p) ''passengers'' = [] \<longleftrightarrow> 1 \<le> n \<and> n \<le> 8))
   \<and> (value p ''passengers'' = [] \<longrightarrow>
      errorText (handleBookingSubmit rt p) ''passengers'' = ''Please select between 1 and 8 passengers'')
   \<and> (value p ''passengers'' = ''2.5'' \<longrightarrow> errorText (handleBookingSubmit rt p) ''passengers'' = [])"
proof -
  have e: "errorText (handleBookingSubmit rt p) ''passengers'' =
     (if value p ''passengers'' = []
         \<or> less_number (StringToNumber (value p ''passengers'')) (Finite 1)
         \<or> less_number (Finite 8) (StringToNumber (value p ''passengers''))
      then ''Please select between 1 and 8 passengers'' else [])"
    by (simp only: handleBookingSubmit_errorText booking_error_passengers)
  have z: "StringToNumber [] = Finite 0" by (simp add: StringToNumber_def trim_Nil)
  have 1: "StringToNumber (value p ''passengers'') = Finite q \<longrightarrow>
      (errorText (handleBookingSubmit rt p) ''passengers'' = [] \<longleftrightarrow> 1 \<le> q \<and> q \<le> 8)"
  proof
    assume f: "StringToNumber (value p ''passengers'') = Finite q"
    show "errorText (handleBookingSubmit rt p) ''passengers'' = [] \<longleftrightarrow> 1 \<le> q \<and> q \<le> 8"
    proof (cases "value p ''passengers'' = []")
      case True
      with f z have "q = 0" by simp
      with True show ?thesis unfolding e by simp
    next
      case False
      then show ?thesis unfolding e f by auto
    qed
  qed
  have 2: "StringToNumber (value p ''passengers'') = PosInf
        \<or> StringToNumber (value p ''passengers'') = NegInf \<longrightarrow>
      errorText (handleBookingSubmit rt p) ''passengers'' = ''Please select between 1 and 8 passengers''"
    unfolding e by auto
  have 3: "value p ''passengers'' = NumberToString n \<longrightarrow>
      (errorText (handleBookingSubmit rt p) ''passengers'' = [] \<longleftrightarrow> 1 \<le> n \<and> n \<le> 8)"
    unfolding e using passengers_integer [of n] by simp
  have 4: "value p ''passengers'' = [] \<longrightarrow>
      errorText (handleBookingSubmit rt p) ''passengers'' = ''Please select between 1 and 8 passengers''"
    unfolding e by simp
  have h: "StringToNumber ''2.5'' = Finite (5 / 2)" by code_simp
  have 5: "value p ''passengers'' = ''2.5'' \<longrightarrow> errorText (handleBookingSubmit rt p) ''passengers'' = []"
    unfolding e by (simp add: h)
  from 1 2 3 4 5 show ?thesis by (intro conjI)
qed

theorem passengers_validation_witness:
  "value (formPage ((''passengers'', ''9'') # validBooking) True True) ''passengers''
     = NumberToString 9
   \<and> errorText (handleBookingSubmit utcNoon
        (formPage ((''passengers'', ''9'') # validBooking) True True)) ''passengers'' \<noteq> []
   \<and> value (formPage ((''passengers'', []) # validBooking) True True) ''passengers'' = []
   \<and> errorText (handleBookingSubmit utcNoon
        (formPage ((''passengers'', []) # validBooking) True True)) ''passengers''
       = ''Please select between 1 and 8 passengers''
   \<and> StringToNumber (value (formPage validBooking True True) ''passengers'') = Finite 2
   \<and> errorText (handleBookingSubmit utcNoon (formPage validBooking True True)) ''passengers''
       = []
   \<and> StringToNumber
         (value (formPage ((''passengers'', ''Infinity'') # validBooking) True True) ''passengers'')
       = PosInf
   \<and> errorText (handleBookingSubmit utcNoon
        (formPage ((''passengers'', ''Infinity'') # validBooking) True True)) ''passengers''
       = ''Please select between 1 and 8 passengers''
   \<and> errorText (handleBookingSubmit utcNoon
        (formPage ((''passengers'', ''2.5'') # validBooking) True True)) ''passengers'' = []"
proof -
  let ?p = "formPage ((''passengers'', ''9'') # validBooking) True True"
  let ?q = "formPage ((''passengers'', []) # validBooking) True True"
  let ?r = "formPage validBooking True True"
  let ?s = "formPage ((''passengers'', ''Infinity'') # validBooking) True True"
  let ?t = "formPage ((''passengers'', ''2.5'') # validBooking) True True"
  have "NumberToString 9 = ''9''" by code_simp
  then have h: "value ?p ''passengers'' = NumberToString 9" by (simp add: formPage_def)
  from passengers_validation [of ?p 0 utcNoon 9, THEN conjunct2, THEN conjunct2, THEN conjunct1,
      THEN mp, OF h]
  have 1: "errorText (handleBookingSubmit utcNoon ?p) ''passengers'' \<noteq> []" by simp
  have e: "value ?q ''passengers'' = []" by (simp add: formPage_def)
  from passengers_validation [of ?q 0 utcNoon 0, THEN conjunct2, THEN conjunct2, THEN conjunct2,
      THEN conjunct1, THEN mp, OF e]
  have 2: "errorText (handleBookingSubmit utcNoon ?q) ''passengers''
       = ''Please select between 1 and 8 passengers''" .
  have f: "StringToNumber (value ?r ''passengers'') = Finite 2" by code_simp
  from passengers_validation [of ?r 2 utcNoon 0, THEN conjunct1, THEN mp, OF f]
  have 3: "errorText (handleBookingSubmit utcNoon ?r) ''passengers'' = []" by simp
  have i: "StringToNumber (value ?s ''passengers'') = PosInf" by code_simp
  then have "StringToNumber (value ?s ''passengers'') = PosInf
      \<or> StringToNumber (value ?s ''passengers'') = NegInf" by (rule disjI1)
  from passengers_validation [of ?s 0 utcNoon 0, THEN conjunct2, THEN conjunct1, THEN mp, OF this]
  have 4: "errorText (handleBookingSubmit utcNoon ?s) ''passengers''
       = ''Please select between 1 and 8 passengers''" .
  have d: "value ?t ''passengers'' = ''2.5''" by (simp add: formPage_def)
  from passengers_validation [of ?t 0 utcNoon 0, THEN conjunct2, THEN conjunct2, THEN conjunct2,
      THEN conjunct2, THEN mp, OF d]
  have 5: "errorText (handleBookingSubmit utcNoon ?t) ''passengers'' = []" .
  from h 1 e 2 f 3 i 4 5 show ?thesis by (intro conjI)
qed

text \<open>
  Claim C3 as stated rejects every value that is not an integer. The value \<open>2.5\<close>
  passes.
\<close>

theorem passengers_non_integer_counterexample:
  "errorText (handleBookingSubmit utcNoon
      (formPage ((''passengers'', ''2.5'') # validBooking) True True)) ''passengers'' = []
   \<and> \<not> spec_passengers_integer_in_range ''2.5''"
  by code_simp

end
